theory Spec2Isabelle
  imports Main
begin

section \<open>JavaScript values and strings\<close>

text \<open>
  The search tools receive their hits as \<open>any[]\<close> and read the location metadata as \<open>any\<close>,
  so the values are modelled dynamically. A number is modelled by what this program observes
  of it. It is falsy when it is zero (plus or minus, both printed \<open>0\<close>) or \<open>NaN\<close>; any other
  number is given by the text that \<open>Number.prototype.toString\<close> returns for it (\<open>3\<close>, \<open>-12\<close>,
  \<open>0.5\<close>, \<open>1e+21\<close>, \<open>Infinity\<close>), which determines the number. How the engine computes that
  text is not part of this program. An object is its list of own properties; a lookup takes the first binding of a name.
  Strings are byte strings (UTF-8); the operations used on them here (equality, splitting at
  \<open>/\<close>, concatenation) agree with the ones on UTF-16 strings.
\<close>

datatype jsnumber =
    Zero
  | NaN
  | NonZero string

datatype jsval =
    JUndefined
  | JNull
  | JBool bool
  | JNum jsnumber
  | JStr string
  | JObj "(string \<times> jsval) list"
  | JArr "jsval list"

datatype error =
    TypeError
  | Failure string

text \<open>Sequencing of fallible steps: the first throw ends the computation.\<close>

definition bindE :: "error + 'a \<Rightarrow> ('a \<Rightarrow> error + 'b) \<Rightarrow> error + 'b" where
  "bindE m f = (case m of Inl e \<Rightarrow> Inl e | Inr x \<Rightarrow> f x)"

definition digit_char :: "nat \<Rightarrow> char" where
  "digit_char n = ''0123456789'' ! (n mod 10)"

function show_nat :: "nat \<Rightarrow> string" where
  "show_nat n = (if n < 10 then [digit_char n] else show_nat (n div 10) @ [digit_char n])"
  by pat_completeness auto
termination
  by (relation "measure (\<lambda>n. n)") auto

declare show_nat.simps [simp del]

text \<open>
  \<open>Number.prototype.toString\<close>, and the number of a count: a count below \<open>2^53\<close> (every array
  index and every array length is) is a safe integer, printed in plain decimal digits.
\<close>

fun Number_toString :: "jsnumber \<Rightarrow> string" where
  "Number_toString Zero = ''0''"
| "Number_toString NaN = ''NaN''"
| "Number_toString (NonZero t) = t"

definition numberOfNat :: "nat \<Rightarrow> jsnumber" where
  "numberOfNat n = (if n = 0 then Zero else NonZero (show_nat n))"

fun join_comma :: "string list \<Rightarrow> string" where
  "join_comma [] = []"
| "join_comma [s] = s"
| "join_comma (s # t # ss) = s @ '','' @ join_comma (t # ss)"

text \<open>\<open>ToString\<close>: the conversion of a template literal \<open>`${v}`\<close>.\<close>

fun ToString :: "jsval \<Rightarrow> string" where
  "ToString JUndefined = ''undefined''"
| "ToString JNull = ''null''"
| "ToString (JBool b) = (if b then ''true'' else ''false'')"
| "ToString (JNum x) = Number_toString x"
| "ToString (JStr s) = s"
| "ToString (JObj fs) = ''[object Object]''"
| "ToString (JArr xs) =
     join_comma (map (\<lambda>v. if v = JUndefined \<or> v = JNull then [] else ToString v) xs)"

text \<open>\<open>v.toString()\<close>: a method call, which throws on \<open>null\<close> and \<open>undefined\<close>.\<close>

definition toString :: "jsval \<Rightarrow> error + string" where
  "toString v = (if v = JUndefined \<or> v = JNull then Inl TypeError else Inr (ToString v))"

fun truthy :: "jsval \<Rightarrow> bool" where
  "truthy JUndefined = False"
| "truthy JNull = False"
| "truthy (JBool b) = b"
| "truthy (JNum x) = (x \<noteq> Zero \<and> x \<noteq> NaN)"
| "truthy (JStr s) = (s \<noteq> [])"
| "truthy (JObj fs) = True"
| "truthy (JArr xs) = True"

fun typeof :: "jsval \<Rightarrow> string" where
  "typeof JUndefined = ''undefined''"
| "typeof JNull = ''object''"
| "typeof (JBool b) = ''boolean''"
| "typeof (JNum n) = ''number''"
| "typeof (JStr s) = ''string''"
| "typeof (JObj fs) = ''object''"
| "typeof (JArr xs) = ''object''"

text \<open>
  \<open>v.name\<close> for the property names read by this program (\<open>source\<close>, \<open>loc\<close>, \<open>pageNumber\<close>,
  \<open>page\<close>, \<open>lines\<close>, \<open>from\<close>, \<open>to\<close>, \<open>hash\<close>): none of them is a member of a built-in
  prototype, so only an object's own properties answer; \<open>null\<close> and \<open>undefined\<close> throw.
  The objects are data: no own property is named like a built-in method (\<open>toString\<close>,
  \<open>valueOf\<close>, \<open>split\<close>), so \<open>ToString\<close> of an object is the one of \<open>Object.prototype\<close>.
\<close>

definition ownProperty :: "(string \<times> jsval) list \<Rightarrow> string \<Rightarrow> jsval" where
  "ownProperty fs name = (case map_of fs name of None \<Rightarrow> JUndefined | Some v \<Rightarrow> v)"

fun getProp :: "jsval \<Rightarrow> string \<Rightarrow> error + jsval" where
  "getProp JUndefined name = Inl TypeError"
| "getProp JNull name = Inl TypeError"
| "getProp (JObj fs) name = Inr (ownProperty fs name)"
| "getProp v name = Inr JUndefined"

text \<open>\<open>v?.name\<close>: optional chaining gives \<open>undefined\<close> where \<open>v.name\<close> throws.\<close>

definition getPropOpt :: "jsval \<Rightarrow> string \<Rightarrow> jsval" where
  "getPropOpt v name = (case getProp v name of Inl e \<Rightarrow> JUndefined | Inr w \<Rightarrow> w)"

text \<open>\<open>s.split(c)\<close> for a one-character separator, and \<open>xs.pop()\<close>.\<close>

fun split :: "char \<Rightarrow> string \<Rightarrow> string list" where
  "split c [] = [[]]"
| "split c (x # xs) =
     (if x = c then [] # split c xs
      else (let r = split c xs in (x # hd r) # tl r))"

definition pop :: "'a list \<Rightarrow> 'a option" where
  "pop xs = (if xs = [] then None else Some (last xs))"

section \<open>Search tools: formatting of hits\<close>

record Document =
  pageContent :: string
  metadata :: jsval

definition nl :: string where
  "nl = [CHR 0x0A]"

text \<open>The three pictographs of the output, as their UTF-8 bytes.\<close>

definition icon_page :: string where
  "icon_page = [CHR 0xF0, CHR 0x9F, CHR 0x93, CHR 0x84]"

definition icon_link :: string where
  "icon_link = [CHR 0xF0, CHR 0x9F, CHR 0x94, CHR 0x97]"

definition icon_memo :: string where
  "icon_memo = [CHR 0xF0, CHR 0x9F, CHR 0x93, CHR 0x9D]"

text \<open>
  \<open>extractPageInfo\<close> (identical in \<open>ChunksSearchTool\<close> and \<open>BroadSearchTool\<close>).
  \<open>None\<close> is the \<open>null\<close> result. The object branch is the body of
  \<open>if (typeof loc === 'object') { ... }\<close>; its result \<open>None\<close> means that no \<open>return\<close> was
  reached inside.
\<close>

definition extractPageInfo_lines :: "jsval \<Rightarrow> error + string option" where
  "extractPageInfo_lines loc =
     bindE (getProp loc ''lines'') (\<lambda>lines.
       if \<not> truthy lines then Inr None
       else bindE (getProp lines ''from'') (\<lambda>from.
         if from = JUndefined then Inr None
         else bindE (getProp lines ''to'') (\<lambda>to.
           Inr (Some (''Line '' @ ToString from @
                      (if truthy to then ''-'' @ ToString to else []))))))"

definition extractPageInfo_object :: "jsval \<Rightarrow> error + string option" where
  "extractPageInfo_object loc =
     bindE (getProp loc ''pageNumber'') (\<lambda>pageNumber.
       if pageNumber \<noteq> JUndefined then map_sum id Some (toString pageNumber)
       else bindE (getProp loc ''page'') (\<lambda>page.
         if page \<noteq> JUndefined then map_sum id Some (toString page)
         else extractPageInfo_lines loc))"

definition extractPageInfo :: "jsval \<Rightarrow> error + string option" where
  "extractPageInfo loc =
     (if \<not> truthy loc then Inr None
      else bindE (if typeof loc = ''object'' then extractPageInfo_object loc else Inr None)
        (\<lambda>r. case r of
           Some s \<Rightarrow> Inr (Some s)
         | None \<Rightarrow>
             if typeof loc = ''string'' \<or> typeof loc = ''number''
             then map_sum id Some (toString loc)
             else Inr None))"

text \<open>
  The file name of a hit: \<open>result.metadata?.source ? result.metadata.source.split('/').pop()
  : 'Unknown file'\<close>. A truthy source that is not a string has no \<open>split\<close> method.
\<close>

definition fileNameOf :: "Document \<Rightarrow> error + string" where
  "fileNameOf result =
     (let source = getPropOpt (metadata result) ''source'' in
      if truthy source then
        (case source of
           JStr s \<Rightarrow> Inr (case pop (split CHR ''/'' s) of None \<Rightarrow> ''undefined'' | Some f \<Rightarrow> f)
         | _ \<Rightarrow> Inl TypeError)
      else Inr ''Unknown file'')"

text \<open>
  The page annotation of a hit: what the formatter appends to the source line after the
  file name, \<open>if (pageInfo) formattedOutput += ` (Page ${pageInfo})`\<close>.
\<close>

definition pageAnnotation :: "string option \<Rightarrow> string" where
  "pageAnnotation pageInfo =
     (case pageInfo of
        None \<Rightarrow> []
      | Some s \<Rightarrow> if s \<noteq> [] then '' (Page '' @ s @ '')'' else [])"

definition filePathLine :: "Document \<Rightarrow> string" where
  "filePathLine result =
     (let source = getPropOpt (metadata result) ''source'' in
      if truthy source then icon_link @ '' **File Path**: '' @ ToString source @ nl else [])"

definition locAnnotation :: "jsval \<Rightarrow> error + string" where
  "locAnnotation loc = bindE (extractPageInfo loc) (\<lambda>pageInfo. Inr (pageAnnotation pageInfo))"

text \<open>One iteration of \<open>results.forEach((result, index) => ...)\<close> of the two chunk tools.\<close>

definition chunkResultBlock :: "Document \<Rightarrow> nat \<Rightarrow> error + string" where
  "chunkResultBlock result index =
     bindE (fileNameOf result) (\<lambda>fileName.
     bindE (locAnnotation (getPropOpt (metadata result) ''loc'')) (\<lambda>annotation.
       Inr (''**Result '' @ show_nat (index + 1) @ ''**'' @ nl @
            icon_page @ '' **Source**: '' @ fileName @
            annotation @
            nl @
            filePathLine result @
            icon_memo @ '' **Content**: '' @ pageContent result @ nl @
            ''---'' @ nl @ nl)))"

text \<open>The same iteration in \<open>CatalogSearchTool\<close>, which has no page annotation.\<close>

definition catalogResultBlock :: "Document \<Rightarrow> nat \<Rightarrow> error + string" where
  "catalogResultBlock result index =
     bindE (fileNameOf result) (\<lambda>fileName.
       Inr (''**Result '' @ show_nat (index + 1) @ ''**'' @ nl @
            icon_page @ '' **Source**: '' @ fileName @ nl @
            filePathLine result @
            icon_memo @ '' **Content**: '' @ pageContent result @ nl @
            ''---'' @ nl @ nl))"

text \<open>The \<open>forEach\<close> loop: the index counts up and the output grows at its end.\<close>

fun forEachBlock ::
  "(Document \<Rightarrow> nat \<Rightarrow> error + string) \<Rightarrow> Document list \<Rightarrow> nat \<Rightarrow> string \<Rightarrow> error + string"
where
  "forEachBlock block [] index formattedOutput = Inr formattedOutput"
| "forEachBlock block (result # results) index formattedOutput =
     bindE (block result index) (\<lambda>b.
       forEachBlock block results (index + 1) (formattedOutput @ b))"

text \<open>
  \<open>formatResultsWithReferences\<close> of the three tools. The argument \<open>None\<close> is a missing hit
  list (\<open>!results\<close>).
\<close>

definition ChunksSearch_formatResultsWithReferences :: "Document list option \<Rightarrow> error + string" where
  "ChunksSearch_formatResultsWithReferences results =
     (case results of
        None \<Rightarrow> Inr ''No results found.''
      | Some rs \<Rightarrow>
          if length rs = 0 then Inr ''No results found.''
          else forEachBlock chunkResultBlock rs 0 (''Search Results:'' @ nl @ nl))"

definition BroadSearch_formatResultsWithReferences :: "Document list option \<Rightarrow> error + string" where
  "BroadSearch_formatResultsWithReferences results =
     (case results of
        None \<Rightarrow> Inr ''No results found.''
      | Some rs \<Rightarrow>
          if length rs = 0 then Inr ''No results found.''
          else forEachBlock chunkResultBlock rs 0 (''Search Results:'' @ nl @ nl))"

definition CatalogSearch_formatResultsWithReferences :: "Document list option \<Rightarrow> error + string" where
  "CatalogSearch_formatResultsWithReferences results =
     (case results of
        None \<Rightarrow> Inr ''No results found.''
      | Some rs \<Rightarrow>
          if length rs = 0 then Inr ''No results found.''
          else forEachBlock catalogResultBlock rs 0 (''Search Results:'' @ nl @ nl))"

text \<open>
  \<open>ChunksSearchTool.execute\<close>. The retriever is the vector store's similarity search, an
  external capability: it receives \<open>params.text\<close> and nothing else, and it returns the hits
  or throws. \<open>params.source\<close> is optional in the parameter type (\<open>None\<close> is a call without
  it). A throw anywhere inside the \<open>try\<close> becomes the error payload (\<open>Inl\<close>); the success
  payload carries the formatted text.
\<close>

definition hasMetadata :: "Document \<Rightarrow> bool" where
  "hasMetadata r = (metadata r \<noteq> JUndefined \<and> metadata r \<noteq> JNull)"

definition strictEqStr :: "jsval \<Rightarrow> string \<Rightarrow> bool" where
  "strictEqStr v s = (v = JStr s)"

fun filterBySource :: "Document list \<Rightarrow> string \<Rightarrow> error + Document list" where
  "filterBySource [] src = Inr []"
| "filterBySource (result # results) src =
     bindE (getProp (metadata result) ''source'') (\<lambda>v.
     bindE (filterBySource results src) (\<lambda>rest.
       Inr (if strictEqStr v src then result # rest else rest)))"

definition ChunksSearch_required :: "string list" where
  "ChunksSearch_required = [''text'', ''source'']"

definition ChunksSearch_execute ::
  "(string \<Rightarrow> error + Document list) \<Rightarrow> string \<Rightarrow> string option \<Rightarrow> error + string"
where
  "ChunksSearch_execute retriever_invoke text source =
     bindE (retriever_invoke text) (\<lambda>results.
     bindE (case source of
              None \<Rightarrow> Inr results
            | Some src \<Rightarrow> if src \<noteq> [] then filterBySource results src else Inr results)
       (\<lambda>filteredResults.
          ChunksSearch_formatResultsWithReferences (Some filteredResults)))"

definition BroadSearch_execute ::
  "(string \<Rightarrow> error + Document list) \<Rightarrow> string \<Rightarrow> error + string"
where
  "BroadSearch_execute retriever_invoke text =
     bindE (retriever_invoke text) (\<lambda>results.
       BroadSearch_formatResultsWithReferences (Some results))"

definition CatalogSearch_execute ::
  "(string \<Rightarrow> error + Document list) \<Rightarrow> string \<Rightarrow> error + string"
where
  "CatalogSearch_execute retriever_invoke text =
     bindE (retriever_invoke text) (\<lambda>results.
       CatalogSearch_formatResultsWithReferences (Some results))"

section \<open>The outside world of one ingestion run\<close>

text \<open>
  The ingestion calls capabilities that are not part of this program: Node's \<open>path\<close>, \<open>fs\<close>
  and \<open>crypto\<close> modules, JavaScript's Unicode-aware \<open>toLowerCase\<close>, the PDF loader, the
  rasterizer (pdf2pic), the image codec (sharp), the summarization chain, the text splitter
  and the embedding model. They are the fields of one record. Each answer is a function of
  the call's arguments, so the record describes a directory and services that do not
  change while they are used; a capability that can throw answers with a sum.
\<close>

text \<open>What pdf2pic reports per page, and the options \<open>extractImagesFromPDF\<close> passes to it.\<close>

record ConvertResponse =
  res_path :: "string option"

record Pdf2picOptions =
  density :: nat
  saveFilename :: string
  savePath :: string
  format :: string
  width :: nat
  height :: nat

text \<open>
  The sharp pipeline of \<open>processStandaloneImage\<close>:
  \<open>sharp(input).resize(w, h, {fit, withoutEnlargement}).png().toFile(output)\<close>.
\<close>

record SharpJob =
  job_input :: string
  resize_width :: nat
  resize_height :: nat
  fit :: string
  withoutEnlargement :: bool
  output_format :: string
  job_output :: string

record ImageMetadata =
  meta_width :: "nat option"
  meta_height :: "nat option"
  meta_format :: "string option"

text \<open>
  A directory listing as \<open>fs.promises.readdir(dir, {withFileTypes: true})\<close> gives it, with
  the listing of every subdirectory inside; \<open>UnreadableDirectory\<close> is a subdirectory whose
  \<open>readdir\<close> throws, \<open>Other\<close> an entry that is neither a file nor a directory.
\<close>

datatype dirent =
    File string
  | Directory string "dirent list"
  | UnreadableDirectory string
  | Other string

text \<open>
  A document as the PDF loader gives it: the text of one page, with a metadata object whose
  \<open>source\<close> is the path of the file (a string) and whose \<open>loc\<close> is the loader's location
  value. \<open>seed\<close> drops every other metadata field before any use.
\<close>

record LoadedDoc =
  ld_pageContent :: string
  ld_source :: string
  ld_loc :: jsval

record World =
  filesDir :: string
  tmpdir :: string
  path_basename :: "string \<Rightarrow> string"
  path_basename_ext :: "string \<Rightarrow> string \<Rightarrow> string"
  path_extname :: "string \<Rightarrow> string"
  path_join :: "string \<Rightarrow> string \<Rightarrow> string"
  toLowerCase :: "string \<Rightarrow> string"
  readFile :: "string \<Rightarrow> error + string"
  sha256hex :: "string \<Rightarrow> string"
  readdir_filesDir :: "error + dirent list"
  mkdir_tempDir :: "error + unit"
  directoryLoader_load :: "error + LoadedDoc list"
  summarizationChain :: "Document list \<Rightarrow> error + string"
  pdf2pic_bulk :: "string \<Rightarrow> Pdf2picOptions \<Rightarrow> error + ConvertResponse list"
  sharp_toFile :: "SharpJob \<Rightarrow> error + unit"
  sharp_metadata :: "string \<Rightarrow> error + ImageMetadata"
  splitDocuments :: "nat \<Rightarrow> nat \<Rightarrow> Document list \<Rightarrow> Document list"
  embedDocuments :: "Document list \<Rightarrow> error + unit"

section \<open>Image processor\<close>

record ImageProcessingResult =
  description :: string
  imagePath :: string
  source :: string
  pageNumber :: "nat option"

text \<open>
  \<open>extractImagesFromPDF\<close>: everything happens inside \<open>try\<close>; the \<open>catch\<close> returns the empty
  list. A page enters the result when its \<open>path\<close> is truthy (present and not empty).
\<close>

definition pdf2picOptions :: "World \<Rightarrow> string \<Rightarrow> string \<Rightarrow> Pdf2picOptions" where
  "pdf2picOptions w pdfPath tempDir =
     \<lparr>density = 100,
      saveFilename = path_basename_ext w pdfPath ''.pdf'',
      savePath = tempDir,
      format = ''png'',
      width = 1024,
      height = 1024\<rparr>"

fun collectPaths :: "ConvertResponse list \<Rightarrow> string list \<Rightarrow> string list" where
  "collectPaths [] imagePaths = imagePaths"
| "collectPaths (r # rs) imagePaths =
     collectPaths rs
       (case res_path r of
          None \<Rightarrow> imagePaths
        | Some p \<Rightarrow> if p \<noteq> [] then imagePaths @ [p] else imagePaths)"

definition extractImagesFromPDF :: "World \<Rightarrow> string \<Rightarrow> string \<Rightarrow> string list" where
  "extractImagesFromPDF w pdfPath tempDir =
     (case pdf2pic_bulk w pdfPath (pdf2picOptions w pdfPath tempDir) of
        Inl e \<Rightarrow> []
      | Inr results \<Rightarrow> collectPaths results [])"

text \<open>
  \<open>processStandaloneImage\<close>: the path of the re-encoded copy when sharp succeeds, the
  original path when it throws.
\<close>

definition sharpJob :: "string \<Rightarrow> string \<Rightarrow> SharpJob" where
  "sharpJob inputPath optimizedPath =
     \<lparr>job_input = inputPath,
      resize_width = 1024,
      resize_height = 1024,
      fit = ''inside'',
      withoutEnlargement = True,
      output_format = ''png'',
      job_output = optimizedPath\<rparr>"

definition processStandaloneImage :: "World \<Rightarrow> string \<Rightarrow> string \<Rightarrow> string" where
  "processStandaloneImage w inputPath tempDir =
     (let optimizedPath = path_join w tempDir (''optimized_'' @ path_basename w inputPath) in
      case sharp_toFile w (sharpJob inputPath optimizedPath) of
        Inl e \<Rightarrow> inputPath
      | Inr u \<Rightarrow> optimizedPath)"

text \<open>
  \<open>generateImageDescription\<close>: file name and extension, then dimensions and format when
  sharp can read them (the inner \<open>catch\<close> only warns), then the placeholder sentence. The
  path functions do not throw on strings, so the outer \<open>catch\<close> is never entered.
\<close>

definition describeMetadata :: "ImageMetadata \<Rightarrow> string" where
  "describeMetadata m =
     (case (meta_width m, meta_height m) of
        (Some mw, Some mh) \<Rightarrow>
          if mw \<noteq> 0 \<and> mh \<noteq> 0
          then '' - Dimensions: '' @ show_nat mw @ ''x'' @ show_nat mh else []
      | _ \<Rightarrow> []) @
     (case meta_format m of
        None \<Rightarrow> []
      | Some f \<Rightarrow> if f \<noteq> [] then '' - Format: '' @ f else [])"

definition generateImageDescription :: "World \<Rightarrow> string \<Rightarrow> string" where
  "generateImageDescription w imgPath =
     (let fileName = path_basename w imgPath;
          fileExt = toLowerCase w (path_extname w imgPath)
      in ''Image file: '' @ fileName @ '' ('' @ fileExt @ '')'' @
         (case sharp_metadata w imgPath of
            Inl metadataError \<Rightarrow> []
          | Inr m \<Rightarrow> describeMetadata m) @
         '' - Visual content analysis will be available when vision model is properly configured'')"

text \<open>
  \<open>processImagesFromPDF\<close>: the loop \<open>for (let i = 0; i < imagePaths.length; i++)\<close> with
  \<open>pageNumber: i + 1\<close>. Neither callee throws, so the \<open>catch\<close> is never entered.
\<close>

fun processImagePaths ::
  "World \<Rightarrow> string \<Rightarrow> string list \<Rightarrow> nat \<Rightarrow> ImageProcessingResult list \<Rightarrow> ImageProcessingResult list"
where
  "processImagePaths w pdfPath [] i results = results"
| "processImagePaths w pdfPath (p # ps) i results =
     processImagePaths w pdfPath ps (i + 1)
       (results @ [\<lparr>description = generateImageDescription w p,
                    imagePath = p,
                    source = pdfPath,
                    pageNumber = Some (i + 1)\<rparr>])"

definition processImagesFromPDF :: "World \<Rightarrow> string \<Rightarrow> string \<Rightarrow> ImageProcessingResult list" where
  "processImagesFromPDF w pdfPath tempDir =
     processImagePaths w pdfPath (extractImagesFromPDF w pdfPath tempDir) 0 []"

text \<open>\<open>processStandaloneImageFile\<close>: \<open>None\<close> is the \<open>null\<close> of its \<open>catch\<close>.\<close>

definition processStandaloneImageFile ::
  "World \<Rightarrow> string \<Rightarrow> string \<Rightarrow> ImageProcessingResult option"
where
  "processStandaloneImageFile w inputPath tempDir =
     (let optimizedPath = processStandaloneImage w inputPath tempDir in
      Some \<lparr>description = generateImageDescription w optimizedPath,
            imagePath = optimizedPath,
            source = inputPath,
            pageNumber = None\<rparr>)"

text \<open>
  \<open>resultsToDocuments\<close>: the spread \<open>...(result.pageNumber && { pageNumber })\<close> adds the
  field when the page number is present and not zero.
\<close>

definition resultToDocument :: "ImageProcessingResult \<Rightarrow> Document" where
  "resultToDocument r =
     \<lparr>pageContent = ''[IMAGE] '' @ description r,
      metadata = JObj ([(''source'', JStr (source r)),
                        (''type'', JStr ''image''),
                        (''imagePath'', JStr (imagePath r))] @
                       (case pageNumber r of
                          None \<Rightarrow> []
                        | Some n \<Rightarrow> if n \<noteq> 0 then [(''pageNumber'', JNum (numberOfNat n))] else []))\<rparr>"

definition resultsToDocuments :: "ImageProcessingResult list \<Rightarrow> Document list" where
  "resultsToDocuments results = map resultToDocument results"

definition isSupportedImageFormat :: "World \<Rightarrow> string \<Rightarrow> bool" where
  "isSupportedImageFormat w filePath =
     (toLowerCase w (path_extname w filePath) \<in>
        set [''.png'', ''.jpg'', ''.jpeg'', ''.gif'', ''.webp'', ''.bmp'', ''.tiff'', ''.tif''])"

section \<open>Ingestion\<close>

subsection \<open>Objects as dictionaries\<close>

text \<open>
  \<open>processDocuments\<close> groups the documents in a plain object \<open>{}\<close> keyed by source. The
  object is the list of its own properties in creation order. Reading \<open>acc[key]\<close> for a key
  that is not an own property finds a member of \<open>Object.prototype\<close> when the key is one of
  the names below, and \<open>undefined\<close> otherwise. \<open>Object.entries\<close> lists the keys that are array
  indices first, in ascending numeric order, then the others in creation order.
\<close>

definition objectPrototypeNames :: "string list" where
  "objectPrototypeNames =
     [''constructor'', ''__defineGetter__'', ''__defineSetter__'', ''hasOwnProperty'',
      ''__lookupGetter__'', ''__lookupSetter__'', ''isPrototypeOf'', ''propertyIsEnumerable'',
      ''toString'', ''valueOf'', ''__proto__'', ''toLocaleString'']"

definition digitValue :: "char \<Rightarrow> nat" where
  "digitValue c = of_char c - 48"

definition read_nat :: "string \<Rightarrow> nat" where
  "read_nat k = foldl (\<lambda>a c. 10 * a + digitValue c) 0 k"

definition isArrayIndex :: "string \<Rightarrow> bool" where
  "isArrayIndex k =
     (k \<noteq> [] \<and> list_all (\<lambda>c. c \<in> set ''0123456789'') k \<and>
      (length k = 1 \<or> hd k \<noteq> CHR ''0'') \<and> read_nat k < 4294967295)"

definition Object_entries :: "(string \<times> 'a) list \<Rightarrow> (string \<times> 'a) list" where
  "Object_entries obj =
     sort_key (\<lambda>kv. read_nat (fst kv)) (filter (\<lambda>kv. isArrayIndex (fst kv)) obj) @
     filter (\<lambda>kv. \<not> isArrayIndex (fst kv)) obj"

text \<open>\<open>xs.includes(v)\<close> on a list of strings: strict equality with one of them.\<close>

definition Array_includes :: "string list \<Rightarrow> jsval \<Rightarrow> bool" where
  "Array_includes xs v = (case v of JStr s \<Rightarrow> s \<in> set xs | _ \<Rightarrow> False)"

definition endsWith :: "string \<Rightarrow> string \<Rightarrow> bool" where
  "endsWith s suffix =
     (length suffix \<le> length s \<and> drop (length s - length suffix) s = suffix)"

subsection \<open>The catalog check and \<open>processDocuments\<close>\<close>

text \<open>
  A table of the vector store is the list of its rows, a row being the stored document
  with its metadata fields as columns. \<open>catalogRecordExists\<close> runs
  \<open>query().where(`hash="${hash}"`).limit(1).toArray()\<close>; the store answers with the rows whose
  \<open>hash\<close> column equals the digest (a hexadecimal digest holds no quote to escape). The
  table variable of \<open>seed\<close> is \<open>undefined\<close> (\<open>None\<close>) when the table could not be opened. The
  last argument and result are the filters sent to the store so far.
\<close>

definition hashFilter :: "string \<Rightarrow> string" where
  "hashFilter h = ''hash='' @ [CHR 0x22] @ h @ [CHR 0x22]"

definition catalogRecordExists ::
  "Document list option \<Rightarrow> string \<Rightarrow> string list \<Rightarrow> error + bool \<times> string list"
where
  "catalogRecordExists catalogTable h sent =
     (case catalogTable of
        None \<Rightarrow> Inl TypeError
      | Some rows \<Rightarrow>
          (let results = take 1 (filter (\<lambda>row. getPropOpt (metadata row) ''hash'' = JStr h) rows)
           in Inr (length results > 0, sent @ [hashFilter h])))"

text \<open>
  The check of \<open>processDocuments\<close>:
  \<open>skipExistsCheck ? false : await catalogRecordExists(catalogTable, hash)\<close>.
\<close>

definition existsCheck ::
  "bool \<Rightarrow> Document list option \<Rightarrow> string \<Rightarrow> string list \<Rightarrow> error + bool \<times> string list"
where
  "existsCheck skipExistsCheck catalogTable h sent =
     (if skipExistsCheck then Inr (False, sent)
      else catalogRecordExists catalogTable h sent)"

text \<open>The \<open>reduce\<close> that groups the documents by \<open>doc.metadata.source\<close>.\<close>

fun groupBySource ::
  "Document list \<Rightarrow> (string \<times> Document list) list \<Rightarrow> error + (string \<times> Document list) list"
where
  "groupBySource [] acc = Inr acc"
| "groupBySource (doc # docs) acc =
     bindE (getProp (metadata doc) ''source'') (\<lambda>v.
       let key = ToString v in
       case map_of acc key of
         Some ds \<Rightarrow>
           groupBySource docs (map (\<lambda>kv. if fst kv = key then (key, snd kv @ [doc]) else kv) acc)
       | None \<Rightarrow>
           if key \<in> set objectPrototypeNames then Inl TypeError
           else groupBySource docs (acc @ [(key, [doc])]))"

record Processed =
  skipSources :: "string list"
  catalogRecords :: "Document list"
  sentFilters :: "string list"

text \<open>
  The body of \<open>for (const [source, docs] of Object.entries(docsBySource))\<close>. A throw of
  \<open>readFile\<close>, of the query or of the summarization chain leaves the function.
\<close>

definition processSource ::
  "World \<Rightarrow> Document list option \<Rightarrow> bool \<Rightarrow> string \<times> Document list \<Rightarrow> Processed \<Rightarrow> error + Processed"
where
  "processSource w catalogTable skipExistsCheck entry st =
     bindE (readFile w (fst entry)) (\<lambda>fileContent.
       let h = sha256hex w fileContent in
       bindE (existsCheck skipExistsCheck catalogTable h (sentFilters st)) (\<lambda>answer.
         if fst answer
         then Inr (st\<lparr>skipSources := skipSources st @ [fst entry], sentFilters := snd answer\<rparr>)
         else bindE (summarizationChain w (snd entry)) (\<lambda>contentOverview.
           Inr (st\<lparr>catalogRecords := catalogRecords st @
                      [\<lparr>pageContent = contentOverview,
                        metadata = JObj [(''source'', JStr (fst entry)), (''hash'', JStr h)]\<rparr>],
                    sentFilters := snd answer\<rparr>))))"

fun processEntries ::
  "World \<Rightarrow> Document list option \<Rightarrow> bool \<Rightarrow> (string \<times> Document list) list \<Rightarrow> Processed \<Rightarrow> error + Processed"
where
  "processEntries w catalogTable skipExistsCheck [] st = Inr st"
| "processEntries w catalogTable skipExistsCheck (entry # entries) st =
     bindE (processSource w catalogTable skipExistsCheck entry st) (\<lambda>st'.
       processEntries w catalogTable skipExistsCheck entries st')"

definition processDocuments ::
  "World \<Rightarrow> Document list \<Rightarrow> Document list option \<Rightarrow> bool \<Rightarrow> error + Processed"
where
  "processDocuments w rawDocs catalogTable skipExistsCheck =
     bindE (groupBySource rawDocs []) (\<lambda>docsBySource.
       processEntries w catalogTable skipExistsCheck (Object_entries docsBySource)
         \<lparr>skipSources = [], catalogRecords = [], sentFilters = []\<rparr>)"

subsection \<open>\<open>findImageFiles\<close> and \<open>processImages\<close>\<close>

fun direntName :: "dirent \<Rightarrow> string" where
  "direntName (File n) = n"
| "direntName (Directory n sub) = n"
| "direntName (UnreadableDirectory n) = n"
| "direntName (Other n) = n"

text \<open>
  \<open>scanDirectory\<close>: the loop over the entries of one directory, descending into
  subdirectories; a \<open>readdir\<close> that throws ends the whole scan.
\<close>

fun scanDirectory :: "World \<Rightarrow> string \<Rightarrow> dirent list \<Rightarrow> string list \<Rightarrow> error + string list" where
  "scanDirectory w currentDir [] imageFiles = Inr imageFiles"
| "scanDirectory w currentDir (Directory n sub # entries) imageFiles =
     bindE (scanDirectory w (path_join w currentDir n) sub imageFiles) (\<lambda>found.
       scanDirectory w currentDir entries found)"
| "scanDirectory w currentDir (UnreadableDirectory n # entries) imageFiles =
     Inl (Failure ''readdir'')"
| "scanDirectory w currentDir (File n # entries) imageFiles =
     scanDirectory w currentDir entries
       (if isSupportedImageFormat w (path_join w currentDir n)
        then imageFiles @ [path_join w currentDir n] else imageFiles)"
| "scanDirectory w currentDir (Other n # entries) imageFiles =
     scanDirectory w currentDir entries imageFiles"

definition findImageFiles :: "World \<Rightarrow> string \<Rightarrow> error + string list" where
  "findImageFiles w dir =
     bindE (readdir_filesDir w) (\<lambda>entries. scanDirectory w dir entries [])"

text \<open>
  The first loop of \<open>processImages\<close>: the set of PDF sources that are not skipped, in
  insertion order. A source that is not a string has no \<open>toLowerCase\<close> method.
\<close>

fun collectPdfSources ::
  "World \<Rightarrow> Document list \<Rightarrow> string list \<Rightarrow> string list \<Rightarrow> error + string list"
where
  "collectPdfSources w [] skipped pdfSources = Inr pdfSources"
| "collectPdfSources w (doc # docs) skipped pdfSources =
     bindE (getProp (metadata doc) ''source'') (\<lambda>v.
       if Array_includes skipped v then collectPdfSources w docs skipped pdfSources
       else (case v of
               JStr s \<Rightarrow>
                 collectPdfSources w docs skipped
                   (if endsWith (toLowerCase w s) ''.pdf'' \<and> s \<notin> set pdfSources
                    then pdfSources @ [s] else pdfSources)
             | _ \<Rightarrow> Inl TypeError))"

fun processPdfSources :: "World \<Rightarrow> string \<Rightarrow> string list \<Rightarrow> Document list \<Rightarrow> Document list" where
  "processPdfSources w tempDir [] imageDocuments = imageDocuments"
| "processPdfSources w tempDir (pdfPath # rest) imageDocuments =
     processPdfSources w tempDir rest
       (imageDocuments @ resultsToDocuments (processImagesFromPDF w pdfPath tempDir))"

fun processImageFiles :: "World \<Rightarrow> string \<Rightarrow> string list \<Rightarrow> Document list \<Rightarrow> Document list" where
  "processImageFiles w tempDir [] imageDocuments = imageDocuments"
| "processImageFiles w tempDir (imgPath # rest) imageDocuments =
     processImageFiles w tempDir rest
       (case processStandaloneImageFile w imgPath tempDir of
          None \<Rightarrow> imageDocuments
        | Some r \<Rightarrow> imageDocuments @ resultsToDocuments [r])"

text \<open>
  \<open>processImages\<close>: a throw inside the \<open>try\<close> is logged and the documents collected up to
  it are returned. The removal of the scratch directory in \<open>finally\<close> has no result and is
  not represented.
\<close>

definition processImages :: "World \<Rightarrow> Document list \<Rightarrow> string list \<Rightarrow> Document list" where
  "processImages w rawDocs skipped =
     (let tempDir = path_join w (tmpdir w) ''lance-mcp-images'' in
      case mkdir_tempDir w of
        Inl e \<Rightarrow> []
      | Inr u \<Rightarrow>
          (case collectPdfSources w rawDocs skipped [] of
             Inl e \<Rightarrow> []
           | Inr pdfSources \<Rightarrow>
               (let pdfDocuments = processPdfSources w tempDir pdfSources [] in
                case findImageFiles w (filesDir w) of
                  Inl e \<Rightarrow> pdfDocuments
                | Inr imageFiles \<Rightarrow> processImageFiles w tempDir imageFiles pdfDocuments)))"

subsection \<open>\<open>seed\<close>\<close>

text \<open>
  The database is its two tables; \<open>None\<close> is a table that does not exist. \<open>dropTable\<close>
  throws for a table that does not exist, so the \<open>try\<close> block with the two drops stops at
  the first missing table.

  The write of the vector store, \<open>LanceDB.fromDocuments\<close>, gets the documents, the path of
  the database, the name of the table and the mode (\<open>overwrite ? "overwrite" : undefined\<close>),
  never a handle of the table. The store takes \<open>overwrite\<close> for a mode that is not given,
  embeds the documents and creates the table from them in that mode: in overwrite mode the
  new table replaces an existing one and holds the documents of this call alone.
\<close>

record Database =
  catalog :: "Document list option"
  chunks :: "Document list option"

definition dropTables :: "Database \<Rightarrow> Database" where
  "dropTables db =
     (case catalog db of
        None \<Rightarrow> db
      | Some c \<Rightarrow>
          (case chunks db of
             None \<Rightarrow> db\<lparr>catalog := None\<rparr>
           | Some k \<Rightarrow> db\<lparr>catalog := None, chunks := None\<rparr>))"

definition LanceDB_fromDocuments ::
  "World \<Rightarrow> string option \<Rightarrow> Document list \<Rightarrow> Document list option \<Rightarrow> error + Document list option"
where
  "LanceDB_fromDocuments w mode docs table =
     bindE (embedDocuments w docs) (\<lambda>u.
       if (case mode of None \<Rightarrow> ''overwrite'' | Some m \<Rightarrow> m) = ''overwrite''
       then Inr (Some docs)
       else (case table of
               None \<Rightarrow> Inr (Some docs)
             | Some rows \<Rightarrow> Inl (Failure ''table already exists'')))"

definition stripMetadata :: "LoadedDoc \<Rightarrow> Document" where
  "stripMetadata d =
     \<lparr>pageContent = ld_pageContent d,
      metadata = JObj [(''loc'', ld_loc d), (''source'', JStr (ld_source d))]\<rparr>"

record SeedReport =
  database :: Database
  processed :: Processed
  filteredRawDocs :: "Document list"
  imageDocuments :: "Document list"
  textDocs :: "Document list"

text \<open>
  \<open>seed\<close> for valid arguments, from the opening of the tables to the write of the chunks.
  The documents it filters were built by \<open>stripMetadata\<close>, so their metadata is an object.
\<close>

definition seed :: "World \<Rightarrow> bool \<Rightarrow> Database \<Rightarrow> error + SeedReport" where
  "seed w overwrite db =
     (let catalogTable = catalog db;
          catalogTableExists = (catalog db \<noteq> None);
          db1 = (if overwrite then dropTables db else db)
      in
      bindE (directoryLoader_load w) (\<lambda>loaded.
        let rawDocs = map stripMetadata loaded in
        bindE (processDocuments w rawDocs catalogTable (overwrite \<or> \<not> catalogTableExists)) (\<lambda>pr.
        bindE (if length (catalogRecords pr) > 0
               then LanceDB_fromDocuments w (if overwrite then Some ''overwrite'' else None)
                      (catalogRecords pr) (catalog db1)
               else Inr (catalog db1)) (\<lambda>catalogStore.
          let filtered = filter (\<lambda>doc. \<not> Array_includes (skipSources pr)
                                         (getPropOpt (metadata doc) ''source'')) rawDocs;
              images = processImages w rawDocs (skipSources pr);
              texts = splitDocuments w 500 10 filtered;
              allDocs = texts @ images
          in
          bindE (if length allDocs > 0
                 then LanceDB_fromDocuments w (if overwrite then Some ''overwrite'' else None)
                        allDocs (chunks db1)
                 else Inr (chunks db1)) (\<lambda>vectorStore.
            Inr \<lparr>database = \<lparr>catalog = catalogStore, chunks = vectorStore\<rparr>,
                 processed = pr,
                 filteredRawDocs = filtered,
                 imageDocuments = images,
                 textDocs = texts\<rparr>)))))"

subsection \<open>Notions used in the statements about ingestion\<close>

text \<open>
  Whether some row of a table has a given digest in its \<open>hash\<close> column; the digest of a
  file that can be read; whether a file's digest is in a table.
\<close>

definition hasHash :: "Document list \<Rightarrow> string \<Rightarrow> bool" where
  "hasHash rows h = list_ex (\<lambda>row. getPropOpt (metadata row) ''hash'' = JStr h) rows"

definition hashOfFile :: "World \<Rightarrow> string \<Rightarrow> string option" where
  "hashOfFile w p =
     (case readFile w p of Inl e \<Rightarrow> None | Inr content \<Rightarrow> Some (sha256hex w content))"

definition cataloged :: "World \<Rightarrow> Document list \<Rightarrow> string \<Rightarrow> bool" where
  "cataloged w rows p = (case hashOfFile w p of None \<Rightarrow> False | Some h \<Rightarrow> hasHash rows h)"

section \<open>Example inputs\<close>

text \<open>
  A hit of the chunks table and a retriever that returns it, and a small directory
  \<open>/docs\<close> with one PDF of one page and one standalone picture, with services that succeed.
\<close>

definition example_hit :: Document where
  "example_hit =
     \<lparr>pageContent = ''text'', metadata = JObj [(''source'', JStr ''/docs/a.pdf'')]\<rparr>"

definition example_retriever :: "string \<Rightarrow> error + Document list" where
  "example_retriever text = Inr [example_hit]"

definition lastSegment :: "string \<Rightarrow> string" where
  "lastSegment p = last (split CHR ''/'' p)"

definition dotExtension :: "string \<Rightarrow> string" where
  "dotExtension p = CHR ''.'' # last (split CHR ''.'' (lastSegment p))"

definition example_loaded :: LoadedDoc where
  "example_loaded =
     \<lparr>ld_pageContent = ''page one'',
      ld_source = ''/docs/a.pdf'',
      ld_loc = JObj [(''pageNumber'', JNum (NonZero ''1''))]\<rparr>"

definition example_world :: World where
  "example_world =
     \<lparr>filesDir = ''/docs'',
      tmpdir = ''/tmp'',
      path_basename = lastSegment,
      path_basename_ext = (\<lambda>p ext. ''a''),
      path_extname = dotExtension,
      path_join = (\<lambda>a b. a @ ''/'' @ b),
      toLowerCase = (\<lambda>s. s),
      readFile = (\<lambda>p. if p = ''/docs/a.pdf'' then Inr ''%PDF-a'' else Inl (Failure ''ENOENT'')),
      sha256hex = (\<lambda>content. ''digest-of-'' @ content),
      readdir_filesDir = Inr [File ''a.pdf'', File ''pic.png''],
      mkdir_tempDir = Inr (),
      directoryLoader_load = Inr [example_loaded],
      summarizationChain = (\<lambda>docs. Inr ''An overview.''),
      pdf2pic_bulk = (\<lambda>p opts. Inr [\<lparr>res_path = Some ''/tmp/lance-mcp-images/a.1.png''\<rparr>]),
      sharp_toFile = (\<lambda>job. Inr ()),
      sharp_metadata = (\<lambda>p. Inr \<lparr>meta_width = Some 640, meta_height = Some 480,
                                   meta_format = Some ''png''\<rparr>),
      splitDocuments = (\<lambda>chunkSize chunkOverlap docs. docs),
      embedDocuments = (\<lambda>docs. Inr ())\<rparr>"

text \<open>The same world with a rasterizer, respectively an image codec, that throws.\<close>

definition broken_pdf_world :: World where
  "broken_pdf_world = example_world\<lparr>pdf2pic_bulk := (\<lambda>p opts. Inl (Failure ''corrupt PDF''))\<rparr>"

definition broken_sharp_world :: World where
  "broken_sharp_world = example_world\<lparr>sharp_toFile := (\<lambda>job. Inl (Failure ''corrupt image''))\<rparr>"

text \<open>
  The records of two runs over the example directory, the first on an empty database, the
  second on the database the first one leaves.
\<close>

definition example_empty_db :: Database where
  "example_empty_db = \<lparr>catalog = None, chunks = None\<rparr>"

definition example_catalog_record :: Document where
  "example_catalog_record =
     \<lparr>pageContent = ''An overview.'',
      metadata = JObj [(''source'', JStr ''/docs/a.pdf''), (''hash'', JStr ''digest-of-%PDF-a'')]\<rparr>"

definition example_text_chunk :: Document where
  "example_text_chunk =
     \<lparr>pageContent = ''page one'',
      metadata = JObj [(''loc'', JObj [(''pageNumber'', JNum (NonZero ''1''))]),
                       (''source'', JStr ''/docs/a.pdf'')]\<rparr>"

definition example_pdf_image :: Document where
  "example_pdf_image =
     \<lparr>pageContent = ''[IMAGE] Image file: a.1.png (.png) - Dimensions: 640x480 - Format: png - Visual content analysis will be available when vision model is properly configured'',
      metadata = JObj [(''source'', JStr ''/docs/a.pdf''), (''type'', JStr ''image''),
                       (''imagePath'', JStr ''/tmp/lance-mcp-images/a.1.png''),
                       (''pageNumber'', JNum (NonZero ''1''))]\<rparr>"

definition example_picture :: Document where
  "example_picture =
     \<lparr>pageContent = ''[IMAGE] Image file: optimized_pic.png (.png) - Dimensions: 640x480 - Format: png - Visual content analysis will be available when vision model is properly configured'',
      metadata = JObj [(''source'', JStr ''/docs/pic.png''), (''type'', JStr ''image''),
                       (''imagePath'', JStr ''/tmp/lance-mcp-images/optimized_pic.png'')]\<rparr>"

definition example_first_run :: SeedReport where
  "example_first_run =
     \<lparr>database = \<lparr>catalog = Some [example_catalog_record],
                   chunks = Some [example_text_chunk, example_pdf_image, example_picture]\<rparr>,
      processed = \<lparr>skipSources = [], catalogRecords = [example_catalog_record], sentFilters = []\<rparr>,
      filteredRawDocs = [example_text_chunk],
      imageDocuments = [example_pdf_image, example_picture],
      textDocs = [example_text_chunk]\<rparr>"

definition example_second_run :: SeedReport where
  "example_second_run =
     \<lparr>database = \<lparr>catalog = Some [example_catalog_record],
                   chunks = Some [example_picture]\<rparr>,
      processed = \<lparr>skipSources = [''/docs/a.pdf''], catalogRecords = [],
                   sentFilters = [''hash='' @ [CHR 0x22] @ ''digest-of-%PDF-a'' @ [CHR 0x22]]\<rparr>,
      filteredRawDocs = [],
      imageDocuments = [example_picture],
      textDocs = []\<rparr>"

text \<open>
  A directory that first holds \<open>a.pdf\<close> alone and then \<open>a.pdf\<close> and \<open>b.pdf\<close>, without
  pictures and with PDFs that give no page image, and the records of three runs: one over
  the first directory on an empty database, then two over the second directory, each on
  the database the run before it leaves.
\<close>

definition example_loaded_b :: LoadedDoc where
  "example_loaded_b =
     \<lparr>ld_pageContent = ''page of b'',
      ld_source = ''/docs/b.pdf'',
      ld_loc = JObj [(''pageNumber'', JNum (NonZero ''1''))]\<rparr>"

definition one_pdf_world :: World where
  "one_pdf_world =
     example_world\<lparr>readdir_filesDir := Inr [File ''a.pdf''],
                   pdf2pic_bulk := (\<lambda>p opts. Inr [])\<rparr>"

definition two_pdf_world :: World where
  "two_pdf_world =
     one_pdf_world\<lparr>readFile :=
                     (\<lambda>p. if p = ''/docs/a.pdf'' then Inr ''%PDF-a''
                          else if p = ''/docs/b.pdf'' then Inr ''%PDF-b''
                          else Inl (Failure ''ENOENT'')),
                   readdir_filesDir := Inr [File ''a.pdf'', File ''b.pdf''],
                   directoryLoader_load := Inr [example_loaded, example_loaded_b]\<rparr>"

definition example_catalog_record_b :: Document where
  "example_catalog_record_b =
     \<lparr>pageContent = ''An overview.'',
      metadata = JObj [(''source'', JStr ''/docs/b.pdf''), (''hash'', JStr ''digest-of-%PDF-b'')]\<rparr>"

definition example_text_chunk_b :: Document where
  "example_text_chunk_b =
     \<lparr>pageContent = ''page of b'',
      metadata = JObj [(''loc'', JObj [(''pageNumber'', JNum (NonZero ''1''))]),
                       (''source'', JStr ''/docs/b.pdf'')]\<rparr>"

definition initial_run :: SeedReport where
  "initial_run =
     \<lparr>database = \<lparr>catalog = Some [example_catalog_record],
                   chunks = Some [example_text_chunk]\<rparr>,
      processed = \<lparr>skipSources = [], catalogRecords = [example_catalog_record], sentFilters = []\<rparr>,
      filteredRawDocs = [example_text_chunk],
      imageDocuments = [],
      textDocs = [example_text_chunk]\<rparr>"

definition mixed_first_run :: SeedReport where
  "mixed_first_run =
     \<lparr>database = \<lparr>catalog = Some [example_catalog_record_b],
                   chunks = Some [example_text_chunk_b]\<rparr>,
      processed = \<lparr>skipSources = [''/docs/a.pdf''],
                   catalogRecords = [example_catalog_record_b],
                   sentFilters = [hashFilter ''digest-of-%PDF-a'', hashFilter ''digest-of-%PDF-b'']\<rparr>,
      filteredRawDocs = [example_text_chunk_b],
      imageDocuments = [],
      textDocs = [example_text_chunk_b]\<rparr>"

definition mixed_second_run :: SeedReport where
  "mixed_second_run =
     \<lparr>database = \<lparr>catalog = Some [example_catalog_record],
                   chunks = Some [example_text_chunk]\<rparr>,
      processed = \<lparr>skipSources = [''/docs/b.pdf''],
                   catalogRecords = [example_catalog_record],
                   sentFilters = [hashFilter ''digest-of-%PDF-a'', hashFilter ''digest-of-%PDF-b'']\<rparr>,
      filteredRawDocs = [example_text_chunk],
      imageDocuments = [],
      textDocs = [example_text_chunk]\<rparr>"

text \<open>Hits of the chunks table with the locations \<open>"p5"\<close> and \<open>{pageNumber: 3}\<close>.\<close>

definition example_hit_p5 :: Document where
  "example_hit_p5 =
     \<lparr>pageContent = ''text'',
      metadata = JObj [(''source'', JStr ''/docs/a.pdf''), (''loc'', JStr ''p5'')]\<rparr>"

definition example_hit_page3 :: Document where
  "example_hit_page3 =
     \<lparr>pageContent = ''more'',
      metadata = JObj [(''source'', JStr ''/docs/a.pdf''),
                       (''loc'', JObj [(''pageNumber'', JNum (NonZero ''3''))])]\<rparr>"

text \<open>A world in which a byte-identical copy of the PDF lies under another path.\<close>

definition copy_world :: World where
  "copy_world =
     example_world\<lparr>readFile :=
       (\<lambda>p. if p = ''/docs/a.pdf'' \<or> p = ''/backup/a-copy.pdf'' then Inr ''%PDF-a''
            else Inl (Failure ''ENOENT''))\<rparr>"

section \<open>Properties of the search tools\<close>

subsection \<open>Location metadata\<close>

lemma forEachBlock_blocks:
  "length bs = length rs \<Longrightarrow>
   (\<forall>k<length rs. block (rs ! k) (i + k) = Inr (bs ! k)) \<Longrightarrow>
   forEachBlock block rs i acc = Inr (acc @ concat bs)"
proof (induction rs arbitrary: bs i acc)
  case Nil
  then show ?case by simp
next
  case (Cons r rs)
  from Cons.prems(1) obtain b bs' where bs: "bs = b # bs'" and len: "length bs' = length rs"
    by (cases bs) auto
  from Cons.prems(2) [rule_format, of 0] bs have head: "block r i = Inr b"
    by simp
  have tail: "\<forall>k<length rs. block (rs ! k) (i + 1 + k) = Inr (bs' ! k)"
  proof (intro allI impI)
    fix k
    assume "k < length rs"
    with Cons.prems(2) [rule_format, of "Suc k"] bs
    show "block (rs ! k) (i + 1 + k) = Inr (bs' ! k)" by simp
  qed
  from Cons.IH [OF len tail, of "acc @ b"] head bs show ?case
    by (simp add: bindE_def)
qed

text \<open>
  Claim C3, as the code has it. \<open>extractPageInfo\<close> takes the first of these that applies:
  a falsy location (\<open>undefined\<close>, \<open>null\<close>, \<open>false\<close>, \<open>0\<close>, \<open>NaN\<close>, the empty string) gives
  nothing; an object whose \<open>pageNumber\<close> is not \<open>undefined\<close> gives that field's
  \<open>toString()\<close>; else an object whose \<open>page\<close> is not \<open>undefined\<close> gives that field's
  \<open>toString()\<close>; else an object whose \<open>lines\<close> holds a \<open>from\<close> gives \<open>Line X\<close>, or
  \<open>Line X-Y\<close> when \<open>lines.to\<close> is truthy; any other object, an array and \<open>true\<close> give
  nothing; a non-empty string is given verbatim and any other number as its \<open>toString()\<close>
  prints it. The formatter of the two chunk tools writes, for each hit, a block whose
  source line is the file name followed by \<open>(Page i)\<close> for a non-empty result \<open>i\<close> and by
  nothing otherwise, and its output is the heading followed by these blocks in order.
\<close>

theorem extractPageInfo_priority:
  "(\<not> truthy loc \<longrightarrow> extractPageInfo loc = Inr None) \<and>
   (ownProperty fs ''pageNumber'' \<noteq> JUndefined \<longrightarrow>
      extractPageInfo (JObj fs) = map_sum id Some (toString (ownProperty fs ''pageNumber''))) \<and>
   (ownProperty fs ''pageNumber'' = JUndefined \<and> ownProperty fs ''page'' \<noteq> JUndefined \<longrightarrow>
      extractPageInfo (JObj fs) = map_sum id Some (toString (ownProperty fs ''page''))) \<and>
   (ownProperty fs ''pageNumber'' = JUndefined \<and> ownProperty fs ''page'' = JUndefined \<and>
    ownProperty fs ''lines'' = JObj ls \<and> ownProperty ls ''from'' \<noteq> JUndefined \<longrightarrow>
      extractPageInfo (JObj fs) =
        Inr (Some (''Line '' @ ToString (ownProperty ls ''from'') @
                   (if truthy (ownProperty ls ''to'')
                    then ''-'' @ ToString (ownProperty ls ''to'') else [])))) \<and>
   (ownProperty fs ''pageNumber'' = JUndefined \<and> ownProperty fs ''page'' = JUndefined \<and>
    (\<forall>ls. ownProperty fs ''lines'' = JObj ls \<longrightarrow> ownProperty ls ''from'' = JUndefined) \<longrightarrow>
      extractPageInfo (JObj fs) = Inr None) \<and>
   (s \<noteq> [] \<longrightarrow> extractPageInfo (JStr s) = Inr (Some s)) \<and>
   (truthy (JNum x) \<longrightarrow> extractPageInfo (JNum x) = Inr (Some (Number_toString x))) \<and>
   extractPageInfo (JNum (NonZero t)) = Inr (Some t) \<and>
   extractPageInfo (JBool True) = Inr None \<and>
   extractPageInfo (JArr xs) = Inr None \<and>
   (extractPageInfo loc = Inr (Some i) \<and> i \<noteq> [] \<longrightarrow>
      locAnnotation loc = Inr ('' (Page '' @ i @ '')'')) \<and>
   (extractPageInfo loc = Inr None \<or> extractPageInfo loc = Inr (Some []) \<longrightarrow>
      locAnnotation loc = Inr []) \<and>
   (fileNameOf result = Inr fileName \<and>
    extractPageInfo (getPropOpt (metadata result) ''loc'') = Inr info \<longrightarrow>
      chunkResultBlock result index =
        Inr (''**Result '' @ show_nat (index + 1) @ ''**'' @ nl @
             icon_page @ '' **Source**: '' @ fileName @
             (case info of
                None \<Rightarrow> []
              | Some i \<Rightarrow> if i = [] then [] else '' (Page '' @ i @ '')'') @
             nl @
             filePathLine result @
             icon_memo @ '' **Content**: '' @ pageContent result @ nl @
             ''---'' @ nl @ nl)) \<and>
   (results \<noteq> [] \<and> length blocks = length results \<and>
    (\<forall>k<length results. chunkResultBlock (results ! k) k = Inr (blocks ! k)) \<longrightarrow>
      ChunksSearch_formatResultsWithReferences (Some results) =
        Inr (''Search Results:'' @ nl @ nl @ concat blocks) \<and>
      BroadSearch_formatResultsWithReferences (Some results) =
        Inr (''Search Results:'' @ nl @ nl @ concat blocks))"
proof -
  have falsy: "\<not> truthy loc \<longrightarrow> extractPageInfo loc = Inr None"
    by (simp add: extractPageInfo_def)
  have pn: "ownProperty fs ''pageNumber'' \<noteq> JUndefined \<longrightarrow>
      extractPageInfo (JObj fs) = map_sum id Some (toString (ownProperty fs ''pageNumber''))"
    by (auto simp: extractPageInfo_def extractPageInfo_object_def bindE_def toString_def
             split: sum.splits option.splits)
  have pg: "ownProperty fs ''pageNumber'' = JUndefined \<and> ownProperty fs ''page'' \<noteq> JUndefined \<longrightarrow>
      extractPageInfo (JObj fs) = map_sum id Some (toString (ownProperty fs ''page''))"
    by (auto simp: extractPageInfo_def extractPageInfo_object_def bindE_def toString_def
             split: sum.splits option.splits)
  have ln: "ownProperty fs ''pageNumber'' = JUndefined \<and> ownProperty fs ''page'' = JUndefined \<and>
    ownProperty fs ''lines'' = JObj ls \<and> ownProperty ls ''from'' \<noteq> JUndefined \<longrightarrow>
      extractPageInfo (JObj fs) =
        Inr (Some (''Line '' @ ToString (ownProperty ls ''from'') @
                   (if truthy (ownProperty ls ''to'')
                    then ''-'' @ ToString (ownProperty ls ''to'') else [])))"
    by (simp add: extractPageInfo_def extractPageInfo_object_def extractPageInfo_lines_def bindE_def)
  have none: "ownProperty fs ''pageNumber'' = JUndefined \<and> ownProperty fs ''page'' = JUndefined \<and>
    (\<forall>ls. ownProperty fs ''lines'' = JObj ls \<longrightarrow> ownProperty ls ''from'' = JUndefined) \<longrightarrow>
      extractPageInfo (JObj fs) = Inr None"
  proof (cases "ownProperty fs ''lines''")
    case (JObj ls)
    then show ?thesis
      by (simp add: extractPageInfo_def extractPageInfo_object_def extractPageInfo_lines_def bindE_def)
  qed (simp_all add: extractPageInfo_def extractPageInfo_object_def extractPageInfo_lines_def bindE_def)
  have str: "s \<noteq> [] \<longrightarrow> extractPageInfo (JStr s) = Inr (Some s)"
    by (simp add: extractPageInfo_def bindE_def toString_def)
  have num: "truthy (JNum x) \<longrightarrow> extractPageInfo (JNum x) = Inr (Some (Number_toString x))"
    by (simp add: extractPageInfo_def bindE_def toString_def)
  have num': "extractPageInfo (JNum (NonZero t)) = Inr (Some t)"
    by (simp add: extractPageInfo_def bindE_def toString_def)
  have tt: "extractPageInfo (JBool True) = Inr None"
    by (simp add: extractPageInfo_def bindE_def)
  have arr: "extractPageInfo (JArr xs) = Inr None"
    by (simp add: extractPageInfo_def extractPageInfo_object_def extractPageInfo_lines_def bindE_def)
  have ann: "extractPageInfo loc = Inr (Some i) \<and> i \<noteq> [] \<longrightarrow>
      locAnnotation loc = Inr ('' (Page '' @ i @ '')'')"
    by (simp add: locAnnotation_def bindE_def pageAnnotation_def)
  have noann: "extractPageInfo loc = Inr None \<or> extractPageInfo loc = Inr (Some []) \<longrightarrow>
      locAnnotation loc = Inr []"
    by (auto simp: locAnnotation_def bindE_def pageAnnotation_def)
  have blk: "fileNameOf result = Inr fileName \<and>
    extractPageInfo (getPropOpt (metadata result) ''loc'') = Inr info \<longrightarrow>
      chunkResultBlock result index =
        Inr (''**Result '' @ show_nat (index + 1) @ ''**'' @ nl @
             icon_page @ '' **Source**: '' @ fileName @
             (case info of
                None \<Rightarrow> []
              | Some i \<Rightarrow> if i = [] then [] else '' (Page '' @ i @ '')'') @
             nl @
             filePathLine result @
             icon_memo @ '' **Content**: '' @ pageContent result @ nl @
             ''---'' @ nl @ nl)"
    by (auto simp: chunkResultBlock_def locAnnotation_def bindE_def pageAnnotation_def
             split: option.splits)
  have fmt: "results \<noteq> [] \<and> length blocks = length results \<and>
    (\<forall>k<length results. chunkResultBlock (results ! k) k = Inr (blocks ! k)) \<longrightarrow>
      ChunksSearch_formatResultsWithReferences (Some results) =
        Inr (''Search Results:'' @ nl @ nl @ concat blocks) \<and>
      BroadSearch_formatResultsWithReferences (Some results) =
        Inr (''Search Results:'' @ nl @ nl @ concat blocks)"
  proof
    assume h: "results \<noteq> [] \<and> length blocks = length results \<and>
      (\<forall>k<length results. chunkResultBlock (results ! k) k = Inr (blocks ! k))"
    then have "forEachBlock chunkResultBlock results 0 (''Search Results:'' @ nl @ nl) =
        Inr ((''Search Results:'' @ nl @ nl) @ concat blocks)"
      using forEachBlock_blocks [of blocks results chunkResultBlock 0] by simp
    with h show "ChunksSearch_formatResultsWithReferences (Some results) =
        Inr (''Search Results:'' @ nl @ nl @ concat blocks) \<and>
      BroadSearch_formatResultsWithReferences (Some results) =
        Inr (''Search Results:'' @ nl @ nl @ concat blocks)"
      by (simp add: ChunksSearch_formatResultsWithReferences_def
            BroadSearch_formatResultsWithReferences_def)
  qed
  from falsy pn pg ln none str num num' tt arr ann noann blk fmt show ?thesis by blast
qed

theorem extractPageInfo_priority_witness:
  "extractPageInfo JUndefined = Inr None \<and>
   extractPageInfo (JNum NaN) = Inr None \<and>
   extractPageInfo (JObj [(''pageNumber'', JNum (NonZero ''3'')), (''page'', JNum (NonZero ''9''))]) =
     Inr (Some ''3'') \<and>
   extractPageInfo (JObj [(''page'', JNum (NonZero ''4''))]) = Inr (Some ''4'') \<and>
   extractPageInfo
     (JObj [(''lines'', JObj [(''from'', JNum (NonZero ''10'')), (''to'', JNum (NonZero ''20''))])]) =
     Inr (Some ''Line 10-20'') \<and>
   extractPageInfo (JObj [(''lines'', JObj [(''from'', JNum (NonZero ''10''))])]) =
     Inr (Some ''Line 10'') \<and>
   extractPageInfo (JObj []) = Inr None \<and>
   extractPageInfo (JStr ''p5'') = Inr (Some ''p5'') \<and>
   extractPageInfo (JNum (NonZero ''12'')) = Inr (Some ''12'') \<and>
   extractPageInfo (JNum (NonZero ''1e+21'')) = Inr (Some ''1e+21'') \<and>
   locAnnotation (JStr ''p5'') = Inr '' (Page p5)'' \<and>
   locAnnotation JUndefined = Inr [] \<and>
   ChunksSearch_formatResultsWithReferences (Some [example_hit_p5, example_hit_page3]) =
     Inr (''Search Results:'' @ nl @ nl @
          ''**Result 1**'' @ nl @
          icon_page @ '' **Source**: a.pdf (Page p5)'' @ nl @
          icon_link @ '' **File Path**: /docs/a.pdf'' @ nl @
          icon_memo @ '' **Content**: text'' @ nl @
          ''---'' @ nl @ nl @
          ''**Result 2**'' @ nl @
          icon_page @ '' **Source**: a.pdf (Page 3)'' @ nl @
          icon_link @ '' **File Path**: /docs/a.pdf'' @ nl @
          icon_memo @ '' **Content**: more'' @ nl @
          ''---'' @ nl @ nl)"
proof -
  note t = extractPageInfo_priority
  note ev = ownProperty_def toString_def getPropOpt_def
  have a: "extractPageInfo JUndefined = Inr None"
    using t [where loc = JUndefined] by simp
  have a': "extractPageInfo (JNum NaN) = Inr None"
    using t [where loc = "JNum NaN"] by simp
  have b: "extractPageInfo (JObj [(''pageNumber'', JNum (NonZero ''3'')), (''page'', JNum (NonZero ''9''))]) =
     Inr (Some ''3'')"
    using t [where fs = "[(''pageNumber'', JNum (NonZero ''3'')), (''page'', JNum (NonZero ''9''))]"]
    by (simp add: ev)
  have c: "extractPageInfo (JObj [(''page'', JNum (NonZero ''4''))]) = Inr (Some ''4'')"
    using t [where fs = "[(''page'', JNum (NonZero ''4''))]"] by (simp add: ev)
  have d: "extractPageInfo
     (JObj [(''lines'', JObj [(''from'', JNum (NonZero ''10'')), (''to'', JNum (NonZero ''20''))])]) =
     Inr (Some ''Line 10-20'')"
    using t [where fs = "[(''lines'', JObj [(''from'', JNum (NonZero ''10'')), (''to'', JNum (NonZero ''20''))])]"
               and ls = "[(''from'', JNum (NonZero ''10'')), (''to'', JNum (NonZero ''20''))]"]
    by (simp add: ev)
  have e: "extractPageInfo (JObj [(''lines'', JObj [(''from'', JNum (NonZero ''10''))])]) =
     Inr (Some ''Line 10'')"
    using t [where fs = "[(''lines'', JObj [(''from'', JNum (NonZero ''10''))])]"
               and ls = "[(''from'', JNum (NonZero ''10''))]"]
    by (simp add: ev)
  have f: "extractPageInfo (JObj []) = Inr None"
    using t [where fs = "[]"] by (simp add: ev)
  have g: "extractPageInfo (JStr ''p5'') = Inr (Some ''p5'')"
    using t [where s = "''p5''"] by simp
  have h: "extractPageInfo (JNum (NonZero ''12'')) = Inr (Some ''12'')"
    using t [where x = "NonZero ''12''"] by simp
  have h': "extractPageInfo (JNum (NonZero ''1e+21'')) = Inr (Some ''1e+21'')"
    using t [where t = "''1e+21''"] by simp
  have k: "locAnnotation (JStr ''p5'') = Inr '' (Page p5)''"
    using t [where loc = "JStr ''p5''" and i = "''p5''"] g by simp
  have l: "locAnnotation JUndefined = Inr []"
    using t [where loc = JUndefined] a by simp
  have p3: "extractPageInfo (JObj [(''pageNumber'', JNum (NonZero ''3''))]) = Inr (Some ''3'')"
    using t [where fs = "[(''pageNumber'', JNum (NonZero ''3''))]"] by (simp add: ev)
  have fn5: "fileNameOf example_hit_p5 = Inr ''a.pdf''"
    by (simp add: fileNameOf_def example_hit_p5_def ev pop_def)
  have fn3: "fileNameOf example_hit_page3 = Inr ''a.pdf''"
    by (simp add: fileNameOf_def example_hit_page3_def ev pop_def)
  have b5: "chunkResultBlock example_hit_p5 0 =
      Inr (''**Result 1**'' @ nl @
           icon_page @ '' **Source**: a.pdf (Page p5)'' @ nl @
           icon_link @ '' **File Path**: /docs/a.pdf'' @ nl @
           icon_memo @ '' **Content**: text'' @ nl @
           ''---'' @ nl @ nl)"
    using t [where result = example_hit_p5 and index = 0 and fileName = "''a.pdf''"
               and info = "Some ''p5''"] fn5 g
    by (simp add: example_hit_p5_def ev filePathLine_def show_nat.simps digit_char_def)
  have b3: "chunkResultBlock example_hit_page3 1 =
      Inr (''**Result 2**'' @ nl @
           icon_page @ '' **Source**: a.pdf (Page 3)'' @ nl @
           icon_link @ '' **File Path**: /docs/a.pdf'' @ nl @
           icon_memo @ '' **Content**: more'' @ nl @
           ''---'' @ nl @ nl)"
    using t [where result = example_hit_page3 and index = 1 and fileName = "''a.pdf''"
               and info = "Some ''3''"] fn3 p3
    by (simp add: example_hit_page3_def ev filePathLine_def show_nat.simps digit_char_def)
  have out: "ChunksSearch_formatResultsWithReferences (Some [example_hit_p5, example_hit_page3]) =
     Inr (''Search Results:'' @ nl @ nl @
          ''**Result 1**'' @ nl @
          icon_page @ '' **Source**: a.pdf (Page p5)'' @ nl @
          icon_link @ '' **File Path**: /docs/a.pdf'' @ nl @
          icon_memo @ '' **Content**: text'' @ nl @
          ''---'' @ nl @ nl @
          ''**Result 2**'' @ nl @
          icon_page @ '' **Source**: a.pdf (Page 3)'' @ nl @
          icon_link @ '' **File Path**: /docs/a.pdf'' @ nl @
          icon_memo @ '' **Content**: more'' @ nl @
          ''---'' @ nl @ nl)"
    using t [where results = "[example_hit_p5, example_hit_page3]"
               and blocks = "[''**Result 1**'' @ nl @
           icon_page @ '' **Source**: a.pdf (Page p5)'' @ nl @
           icon_link @ '' **File Path**: /docs/a.pdf'' @ nl @
           icon_memo @ '' **Content**: text'' @ nl @
           ''---'' @ nl @ nl,
           ''**Result 2**'' @ nl @
           icon_page @ '' **Source**: a.pdf (Page 3)'' @ nl @
           icon_link @ '' **File Path**: /docs/a.pdf'' @ nl @
           icon_memo @ '' **Content**: more'' @ nl @
           ''---'' @ nl @ nl]"] b5 b3
    by (simp add: All_less_Suc)
  from a a' b c d e f g h h' k l out show ?thesis by simp
qed

text \<open>
  Claim C3 as stated fails on its own examples. For a hit whose location is the raw string
  \<open>p5\<close> the formatter writes the annotation \<open>(Page p5)\<close>, not \<open>p5\<close>; read as the value of
  \<open>extractPageInfo\<close> instead, the result for \<open>{pageNumber: 3}\<close> is \<open>3\<close>, not \<open>Page 3\<close>; and
  the primitive number \<open>0\<close> is not given verbatim but dropped.
\<close>

theorem location_examples_counterexample:
  "ChunksSearch_formatResultsWithReferences (Some [example_hit_p5]) =
     Inr (''Search Results:'' @ nl @ nl @
          ''**Result 1**'' @ nl @
          icon_page @ '' **Source**: a.pdf (Page p5)'' @ nl @
          icon_link @ '' **File Path**: /docs/a.pdf'' @ nl @
          icon_memo @ '' **Content**: text'' @ nl @
          ''---'' @ nl @ nl) \<and>
   locAnnotation (JStr ''p5'') = Inr '' (Page p5)'' \<and>
   locAnnotation (JStr ''p5'') \<noteq> Inr ''p5'' \<and>
   extractPageInfo (JObj [(''pageNumber'', JNum (NonZero ''3''))]) = Inr (Some ''3'') \<and>
   extractPageInfo (JObj [(''pageNumber'', JNum (NonZero ''3''))]) \<noteq> Inr (Some ''Page 3'') \<and>
   extractPageInfo (JNum Zero) = Inr None"
  by (simp add: ChunksSearch_formatResultsWithReferences_def chunkResultBlock_def
        fileNameOf_def filePathLine_def example_hit_p5_def getPropOpt_def pop_def
        locAnnotation_def extractPageInfo_def extractPageInfo_object_def bindE_def
        pageAnnotation_def ownProperty_def toString_def show_nat.simps digit_char_def)

subsection \<open>The source filter of \<open>chunks_search\<close>\<close>

lemma filterBySource_eq:
  "filterBySource results src =
     (if list_all hasMetadata results
      then Inr (filter (\<lambda>r. getPropOpt (metadata r) ''source'' = JStr src) results)
      else Inl TypeError)"
proof (induction results)
  case Nil
  show ?case by simp
next
  case (Cons r rs)
  show ?case
  proof (cases "hasMetadata r")
    case True
    then have "getProp (metadata r) ''source'' = Inr (getPropOpt (metadata r) ''source'')"
      by (cases "metadata r") (simp_all add: hasMetadata_def getPropOpt_def)
    with True Cons show ?thesis
      by (simp add: bindE_def strictEqStr_def)
  next
    case False
    then have "getProp (metadata r) ''source'' = Inl TypeError"
      by (auto simp: hasMetadata_def)
    with False show ?thesis
      by (simp add: bindE_def)
  qed
qed

text \<open>
  Claim C4, as the code has it: for every query text and every non-empty source string,
  \<open>chunks_search\<close> asks the retriever with the text alone and formats exactly the retrieved
  hits whose \<open>metadata.source\<close> is strictly equal to the source, in their order; a retriever
  that throws, or a hit without a metadata object, gives the error payload. (For the empty
  source see C10.)
\<close>

theorem chunks_search_source_filter:
  "src \<noteq> [] \<longrightarrow>
     ChunksSearch_execute retriever_invoke text (Some src) =
       (case retriever_invoke text of
          Inl e \<Rightarrow> Inl e
        | Inr results \<Rightarrow>
            if list_all hasMetadata results
            then ChunksSearch_formatResultsWithReferences
                   (Some (filter (\<lambda>r. getPropOpt (metadata r) ''source'' = JStr src) results))
            else Inl TypeError)"
  by (simp add: ChunksSearch_execute_def bindE_def filterBySource_eq split: sum.splits)

theorem chunks_search_source_filter_witness:
  "ChunksSearch_execute example_retriever ''query'' (Some ''/docs/b.pdf'') =
     Inr ''No results found.''"
  using chunks_search_source_filter [of "''/docs/b.pdf''" example_retriever "''query''"]
  by (simp add: example_retriever_def example_hit_def hasMetadata_def getPropOpt_def
        ownProperty_def ChunksSearch_formatResultsWithReferences_def)

text \<open>
  Claim C4 as stated fails for the empty source string: the one retrieved hit has the
  source \<open>/docs/a.pdf\<close>, which is not the given source, and the output is built from it.
\<close>

theorem chunks_search_empty_source_counterexample:
  "ChunksSearch_execute example_retriever ''query'' (Some '''') =
     ChunksSearch_formatResultsWithReferences (Some [example_hit]) \<and>
   getPropOpt (metadata example_hit) ''source'' \<noteq> JStr '''' \<and>
   ChunksSearch_formatResultsWithReferences (Some [example_hit]) \<noteq> Inr ''No results found.''"
  by (simp add: ChunksSearch_execute_def example_retriever_def example_hit_def bindE_def
        getPropOpt_def ownProperty_def ChunksSearch_formatResultsWithReferences_def
        chunkResultBlock_def fileNameOf_def locAnnotation_def extractPageInfo_def
        pageAnnotation_def pop_def nl_def)

text \<open>
  Claim C10: the input schema lists \<open>source\<close> as required, and yet for the empty source
  string the filter is not applied: the output is the formatting of all retrieved hits,
  whatever their source.
\<close>

theorem chunks_search_empty_source_unfiltered:
  "''source'' \<in> set ChunksSearch_required \<and>
   ChunksSearch_execute retriever_invoke text (Some '''') =
     bindE (retriever_invoke text) (\<lambda>results.
       ChunksSearch_formatResultsWithReferences (Some results))"
  by (simp add: ChunksSearch_required_def ChunksSearch_execute_def bindE_def split: sum.splits)

subsection \<open>Empty results\<close>

text \<open>
  Claim C5: for an empty and for a missing list of hits, the formatter of each of the three
  search tools returns the text \<open>No results found.\<close>
\<close>

theorem empty_hits_no_results_found:
  "ChunksSearch_formatResultsWithReferences (Some []) = Inr ''No results found.'' \<and>
   ChunksSearch_formatResultsWithReferences None = Inr ''No results found.'' \<and>
   BroadSearch_formatResultsWithReferences (Some []) = Inr ''No results found.'' \<and>
   BroadSearch_formatResultsWithReferences None = Inr ''No results found.'' \<and>
   CatalogSearch_formatResultsWithReferences (Some []) = Inr ''No results found.'' \<and>
   CatalogSearch_formatResultsWithReferences None = Inr ''No results found.''"
  by (simp add: ChunksSearch_formatResultsWithReferences_def
        BroadSearch_formatResultsWithReferences_def CatalogSearch_formatResultsWithReferences_def)

section \<open>Properties of the image processor\<close>

lemma processImagePaths_pageNumber:
  "map pageNumber (processImagePaths w pdf ps i rs) =
     map pageNumber rs @ map Some [i + 1 ..< i + 1 + length ps]"
proof (induction ps arbitrary: i rs)
  case Nil
  show ?case by simp
next
  case (Cons p ps)
  have "[i + 1 ..< i + 1 + length (p # ps)] = (i + 1) # [i + 2 ..< i + 2 + length ps]"
    by (simp add: upt_rec)
  then show ?case using Cons.IH [of "i + 1"] by simp
qed

lemma processImagePaths_imagePath:
  "map imagePath (processImagePaths w pdf ps i rs) = map imagePath rs @ ps"
  by (induction ps arbitrary: i rs) simp_all

lemma processImagePaths_source:
  "map source (processImagePaths w pdf ps i rs) = map source rs @ replicate (length ps) pdf"
  by (induction ps arbitrary: i rs) (simp_all add: replicate_append_same)

lemma processPdfSources_concat:
  "processPdfSources w t ps docs =
     docs @ concat (map (\<lambda>p. resultsToDocuments (processImagesFromPDF w p t)) ps)"
  by (induction ps arbitrary: docs) simp_all

text \<open>
  Claim C7: when the rasterizer throws for a PDF, \<open>extractImagesFromPDF\<close> returns the
  empty list, \<open>processImagesFromPDF\<close> returns no image result, and the loop of
  \<open>processImages\<close> over the PDF sources goes on as if that PDF were not in it.
\<close>

theorem pdf_extraction_failure_yields_no_images:
  assumes "pdf2pic_bulk w pdfPath (pdf2picOptions w pdfPath tempDir) = Inl e"
  shows "extractImagesFromPDF w pdfPath tempDir = [] \<and>
         processImagesFromPDF w pdfPath tempDir = [] \<and>
         processPdfSources w tempDir (before @ pdfPath # after) docs =
           processPdfSources w tempDir (before @ after) docs"
proof -
  have ex: "extractImagesFromPDF w pdfPath tempDir = []"
    using assms by (simp add: extractImagesFromPDF_def)
  then have pr: "processImagesFromPDF w pdfPath tempDir = []"
    by (simp add: processImagesFromPDF_def)
  then have "processPdfSources w tempDir (before @ pdfPath # after) docs =
           processPdfSources w tempDir (before @ after) docs"
    by (simp add: processPdfSources_concat resultsToDocuments_def)
  with ex pr show ?thesis by simp
qed

theorem pdf_extraction_failure_yields_no_images_witness:
  "pdf2pic_bulk broken_pdf_world ''/docs/a.pdf''
     (pdf2picOptions broken_pdf_world ''/docs/a.pdf'' ''/tmp/i'') = Inl (Failure ''corrupt PDF'') \<and>
   extractImagesFromPDF broken_pdf_world ''/docs/a.pdf'' ''/tmp/i'' = [] \<and>
   processImagesFromPDF broken_pdf_world ''/docs/a.pdf'' ''/tmp/i'' = [] \<and>
   processPdfSources broken_pdf_world ''/tmp/i'' [''/docs/a.pdf''] [example_hit] = [example_hit]"
proof -
  have h: "pdf2pic_bulk broken_pdf_world ''/docs/a.pdf''
     (pdf2picOptions broken_pdf_world ''/docs/a.pdf'' ''/tmp/i'') = Inl (Failure ''corrupt PDF'')"
    by (simp add: broken_pdf_world_def)
  show ?thesis
    using h pdf_extraction_failure_yields_no_images [OF h, of "[]" "[]" "[example_hit]"]
    by (simp add: resultsToDocuments_def)
qed

text \<open>
  Claim C8: when sharp throws, \<open>processStandaloneImage\<close> returns the original path, and
  the image still gets its result with that path; when sharp succeeds it returns the path
  it had sharp write to, \<open>optimized_<name>\<close> in the scratch directory, the job being a
  resize to 1024 by 1024 with fit \<open>inside\<close> and without enlargement.
\<close>

theorem standalone_image_fallback:
  "(sharp_toFile w (sharpJob p (path_join w tempDir (''optimized_'' @ path_basename w p))) = Inl e \<longrightarrow>
      processStandaloneImage w p tempDir = p \<and>
      map_option imagePath (processStandaloneImageFile w p tempDir) = Some p) \<and>
   (sharp_toFile w (sharpJob p (path_join w tempDir (''optimized_'' @ path_basename w p))) = Inr u \<longrightarrow>
      processStandaloneImage w p tempDir = path_join w tempDir (''optimized_'' @ path_basename w p)) \<and>
   job_input (sharpJob p out) = p \<and> job_output (sharpJob p out) = out \<and>
   resize_width (sharpJob p out) = 1024 \<and> resize_height (sharpJob p out) = 1024 \<and>
   fit (sharpJob p out) = ''inside'' \<and> withoutEnlargement (sharpJob p out)"
  by (simp add: processStandaloneImage_def processStandaloneImageFile_def sharpJob_def Let_def)

theorem standalone_image_fallback_witness:
  "processStandaloneImage broken_sharp_world ''/docs/pic.png'' ''/tmp/i'' = ''/docs/pic.png'' \<and>
   processStandaloneImage example_world ''/docs/pic.png'' ''/tmp/i'' = ''/tmp/i/optimized_pic.png''"
proof -
  have a: "processStandaloneImage broken_sharp_world ''/docs/pic.png'' ''/tmp/i'' = ''/docs/pic.png''"
    using standalone_image_fallback [of broken_sharp_world "''/docs/pic.png''" "''/tmp/i''"
        "Failure ''corrupt image''"]
    by (simp add: broken_sharp_world_def)
  have b: "processStandaloneImage example_world ''/docs/pic.png'' ''/tmp/i'' =
      ''/tmp/i/optimized_pic.png''"
    using standalone_image_fallback [of example_world "''/docs/pic.png''" "''/tmp/i''" _ "()"]
    by (simp add: example_world_def lastSegment_def)
  from a b show ?thesis by simp
qed

text \<open>
  Claim C9: \<open>processImagesFromPDF\<close> gives one result per extracted image, with the page
  numbers 1, 2, ... in order, the extracted path as \<open>imagePath\<close> and the PDF as \<open>source\<close>;
  \<open>processStandaloneImageFile\<close> gives a result without page number, with the image as
  \<open>source\<close> and the processed path as \<open>imagePath\<close>. In the documents built from the results
  the metadata field \<open>pageNumber\<close> is present for the former and absent for the latter.
\<close>

theorem image_results_page_numbers:
  "map pageNumber (processImagesFromPDF w pdfPath tempDir) =
     map Some [1 ..< 1 + length (extractImagesFromPDF w pdfPath tempDir)] \<and>
   map imagePath (processImagesFromPDF w pdfPath tempDir) = extractImagesFromPDF w pdfPath tempDir \<and>
   map source (processImagesFromPDF w pdfPath tempDir) =
     replicate (length (extractImagesFromPDF w pdfPath tempDir)) pdfPath \<and>
   map_option pageNumber (processStandaloneImageFile w imgPath tempDir) = Some None \<and>
   map_option source (processStandaloneImageFile w imgPath tempDir) = Some imgPath \<and>
   map_option imagePath (processStandaloneImageFile w imgPath tempDir) =
     Some (processStandaloneImage w imgPath tempDir) \<and>
   map (\<lambda>d. getPropOpt (metadata d) ''pageNumber'')
       (resultsToDocuments (processImagesFromPDF w pdfPath tempDir)) =
     map (\<lambda>n. JNum (numberOfNat n)) [1 ..< 1 + length (extractImagesFromPDF w pdfPath tempDir)] \<and>
   map_option (\<lambda>r. getPropOpt (metadata (resultToDocument r)) ''pageNumber'')
       (processStandaloneImageFile w imgPath tempDir) = Some JUndefined"
proof -
  let ?ps = "extractImagesFromPDF w pdfPath tempDir"
  have pn: "map pageNumber (processImagesFromPDF w pdfPath tempDir) = map Some [1 ..< 1 + length ?ps]"
    using processImagePaths_pageNumber [of w pdfPath ?ps 0 "[]"]
    by (simp add: processImagesFromPDF_def)
  have ip: "map imagePath (processImagesFromPDF w pdfPath tempDir) = ?ps"
    by (simp add: processImagesFromPDF_def processImagePaths_imagePath)
  have src: "map source (processImagesFromPDF w pdfPath tempDir) = replicate (length ?ps) pdfPath"
    by (simp add: processImagesFromPDF_def processImagePaths_source)
  have st: "map_option pageNumber (processStandaloneImageFile w imgPath tempDir) = Some None"
       "map_option source (processStandaloneImageFile w imgPath tempDir) = Some imgPath"
       "map_option imagePath (processStandaloneImageFile w imgPath tempDir) =
          Some (processStandaloneImage w imgPath tempDir)"
       "map_option (\<lambda>r. getPropOpt (metadata (resultToDocument r)) ''pageNumber'')
          (processStandaloneImageFile w imgPath tempDir) = Some JUndefined"
    by (simp_all add: processStandaloneImageFile_def Let_def resultToDocument_def
          getPropOpt_def ownProperty_def)
  have doc: "getPropOpt (metadata (resultToDocument r)) ''pageNumber'' =
        (case pageNumber r of None \<Rightarrow> JUndefined
         | Some n \<Rightarrow> if n \<noteq> 0 then JNum (numberOfNat n) else JUndefined)" for r
    by (simp add: resultToDocument_def getPropOpt_def ownProperty_def split: option.splits)
  have "map (\<lambda>d. getPropOpt (metadata d) ''pageNumber'')
       (resultsToDocuments (processImagesFromPDF w pdfPath tempDir)) =
        map (\<lambda>x. case x of None \<Rightarrow> JUndefined
                  | Some n \<Rightarrow> if n \<noteq> 0 then JNum (numberOfNat n) else JUndefined)
          (map pageNumber (processImagesFromPDF w pdfPath tempDir))"
    by (simp add: resultsToDocuments_def doc comp_def)
  also have "\<dots> = map (\<lambda>n. JNum (numberOfNat n)) [1 ..< 1 + length ?ps]"
    unfolding pn map_map by (rule map_cong) auto
  finally have docs: "map (\<lambda>d. getPropOpt (metadata d) ''pageNumber'')
       (resultsToDocuments (processImagesFromPDF w pdfPath tempDir)) =
     map (\<lambda>n. JNum (numberOfNat n)) [1 ..< 1 + length ?ps]" .
  from pn ip src st docs show ?thesis by simp
qed

section \<open>Properties of the ingestion\<close>

subsection \<open>The loop of \<open>processDocuments\<close> and the steps of \<open>seed\<close>\<close>

lemma catalogRecordExists_Some:
  "catalogRecordExists (Some rows) h sent = Inr (hasHash rows h, sent @ [hashFilter h])"
proof -
  have "(0 < length (take 1 (filter P rows))) = list_ex P rows" for P :: "Document \<Rightarrow> bool"
    by (induction rows) auto
  then show ?thesis
    by (simp add: catalogRecordExists_def hasHash_def Let_def)
qed

lemma existsCheck_query:
  "existsCheck False (Some rows) h sent = Inr (hasHash rows h, sent @ [hashFilter h])"
  by (simp add: existsCheck_def catalogRecordExists_Some)

lemma processEntries_Cons_Inr:
  assumes "processEntries w tbl skipEC (e # es) st = Inr st'"
  obtains st1 where "processSource w tbl skipEC e st = Inr st1"
    and "processEntries w tbl skipEC es st1 = Inr st'"
  using assms by (auto simp: bindE_def split: sum.splits)

text \<open>With the check switched off nothing is skipped and nothing is asked.\<close>

lemma processEntries_skipExistsCheck:
  "processEntries w tbl True es st = Inr st' \<Longrightarrow>
     skipSources st' = skipSources st \<and> sentFilters st' = sentFilters st \<and>
     length (catalogRecords st') = length (catalogRecords st) + length es"
proof (induction es arbitrary: st)
  case Nil
  then show ?case by simp
next
  case (Cons e es)
  from Cons.prems obtain st1 where
    a: "processSource w tbl True e st = Inr st1" and
    b: "processEntries w tbl True es st1 = Inr st'"
    by (rule processEntries_Cons_Inr)
  from a have "skipSources st1 = skipSources st \<and> sentFilters st1 = sentFilters st \<and>
      length (catalogRecords st1) = length (catalogRecords st) + 1"
    by (auto simp: processSource_def bindE_def Let_def existsCheck_def split: sum.splits)
  with Cons.IH [OF b] show ?case by simp
qed

lemma getProp_stripMetadata:
  "getProp (metadata (stripMetadata d)) ''source'' = Inr (JStr (ld_source d))"
  by (simp add: stripMetadata_def ownProperty_def)

lemma map_fst_update:
  "map fst (map (\<lambda>kv. if fst kv = k then (k, f kv) else kv) acc) = map fst acc"
  by (induction acc) auto

lemma groupBySource_keys:
  "groupBySource (map stripMetadata loaded) acc = Inr g \<Longrightarrow>
     fst ` set g = fst ` set acc \<union> ld_source ` set loaded"
proof (induction loaded arbitrary: acc)
  case Nil
  then show ?case by simp
next
  case (Cons d ds)
  let ?key = "ld_source d"
  show ?case
  proof (cases "map_of acc ?key")
    case None
    with Cons.prems have "groupBySource (map stripMetadata ds) (acc @ [(?key, [stripMetadata d])]) = Inr g"
      by (simp add: getProp_stripMetadata bindE_def Let_def split: if_splits)
    from Cons.IH [OF this] show ?thesis by auto
  next
    case (Some docs)
    let ?acc = "map (\<lambda>kv. if fst kv = ?key then (?key, snd kv @ [stripMetadata d]) else kv) acc"
    from Some Cons.prems have "groupBySource (map stripMetadata ds) ?acc = Inr g"
      by (simp add: getProp_stripMetadata bindE_def Let_def cong: if_cong)
    from Cons.IH [OF this] have g: "fst ` set g = fst ` set ?acc \<union> ld_source ` set ds" .
    have "set (map fst ?acc) = set (map fst acc)"
      by (simp only: map_fst_update)
    then have "fst ` set ?acc = fst ` set acc"
      by (simp only: set_map)
    moreover from Some have "?key \<in> fst ` set acc"
      by (metis map_of_eq_None_iff option.distinct(1))
    ultimately show ?thesis using g by auto
  qed
qed

lemma set_Object_entries: "set (Object_entries obj) = set obj"
  by (auto simp: Object_entries_def)

lemma processDocuments_Inr:
  assumes "processDocuments w rawDocs tbl skipEC = Inr pr"
  obtains g where "groupBySource rawDocs [] = Inr g"
    and "processEntries w tbl skipEC (Object_entries g)
           \<lparr>skipSources = [], catalogRecords = [], sentFilters = []\<rparr> = Inr pr"
  using assms by (auto simp: processDocuments_def bindE_def split: sum.splits)

lemma processEntries_skipSources:
  "processEntries w (Some rows) False es st = Inr st' \<Longrightarrow>
     skipSources st' = skipSources st @ filter (cataloged w rows) (map fst es)"
proof (induction es arbitrary: st)
  case Nil
  then show ?case by simp
next
  case (Cons e es)
  from Cons.prems obtain st1 where
    a: "processSource w (Some rows) False e st = Inr st1" and
    b: "processEntries w (Some rows) False es st1 = Inr st'"
    by (rule processEntries_Cons_Inr)
  from a have "skipSources st1 = skipSources st @ filter (cataloged w rows) [fst e]"
    by (auto simp: processSource_def bindE_def Let_def existsCheck_query cataloged_def
          hashOfFile_def split: sum.splits if_splits)
  with Cons.IH [OF b] show ?case by simp
qed

lemma seed_processed:
  assumes "seed w overwrite db = Inr r"
  shows "\<exists>loaded. directoryLoader_load w = Inr loaded \<and>
           processDocuments w (map stripMetadata loaded) (catalog db)
             (overwrite \<or> \<not> catalog db \<noteq> None) = Inr (processed r)"
proof -
  from assms obtain loaded where load: "directoryLoader_load w = Inr loaded"
    by (cases "directoryLoader_load w") (simp_all add: seed_def bindE_def Let_def)
  from assms load obtain pr where
    pd: "processDocuments w (map stripMetadata loaded) (catalog db)
           (overwrite \<or> \<not> catalog db \<noteq> None) = Inr pr"
    by (cases "processDocuments w (map stripMetadata loaded) (catalog db)
           (overwrite \<or> \<not> catalog db \<noteq> None)")
       (simp_all add: seed_def bindE_def Let_def)
  from assms load pd have "processed r = pr"
    by (auto simp: seed_def bindE_def Let_def split: sum.splits if_splits)
  with load pd show ?thesis by simp
qed

subsection \<open>The catalog check\<close>

text \<open>
  Claim C1: the check of \<open>processDocuments\<close>, with the flag \<open>seed\<close> passes to it
  (\<open>overwrite || !catalogTableExists\<close>), answers \<open>false\<close> and sends no query to the table
  when an overwrite is requested or the catalog table does not exist; otherwise it sends
  one query and answers \<open>true\<close> exactly when some row of the table has a \<open>hash\<close> column equal
  to the digest. The path plays no part: any readable file whose digest is in the table is
  skipped, whatever the \<open>source\<close> of the row. For a whole run: nothing is skipped and nothing
  is asked in the first case, and in the second the skipped sources are exactly the loaded
  sources whose digest is in the table.
\<close>

theorem catalog_check_decides_skip:
  "(overwrite \<or> catalog db = None \<longrightarrow>
      existsCheck (overwrite \<or> \<not> catalog db \<noteq> None) (catalog db) h sent = Inr (False, sent)) \<and>
   (\<not> overwrite \<and> catalog db = Some rows \<longrightarrow>
      existsCheck (overwrite \<or> \<not> catalog db \<noteq> None) (catalog db) h sent =
        Inr (list_ex (\<lambda>row. getPropOpt (metadata row) ''hash'' = JStr h) rows,
             sent @ [hashFilter h])) \<and>
   (readFile w p = Inr content \<and> hasHash rows (sha256hex w content) \<longrightarrow>
      processSource w (Some rows) False (p, docs) st =
        Inr (st\<lparr>skipSources := skipSources st @ [p],
                 sentFilters := sentFilters st @ [hashFilter (sha256hex w content)]\<rparr>)) \<and>
   (seed w overwrite db = Inr r \<and> (overwrite \<or> catalog db = None) \<longrightarrow>
      skipSources (processed r) = [] \<and> sentFilters (processed r) = []) \<and>
   (seed w False db = Inr r \<and> catalog db = Some rows \<and> directoryLoader_load w = Inr loaded \<longrightarrow>
      set (skipSources (processed r)) = {p \<in> ld_source ` set loaded. cataloged w rows p})"
proof -
  have a: "overwrite \<or> catalog db = None \<longrightarrow>
      existsCheck (overwrite \<or> \<not> catalog db \<noteq> None) (catalog db) h sent = Inr (False, sent)"
    by (auto simp: existsCheck_def)
  have b: "\<not> overwrite \<and> catalog db = Some rows \<longrightarrow>
      existsCheck (overwrite \<or> \<not> catalog db \<noteq> None) (catalog db) h sent =
        Inr (list_ex (\<lambda>row. getPropOpt (metadata row) ''hash'' = JStr h) rows,
             sent @ [hashFilter h])"
    by (auto simp: existsCheck_query hasHash_def)
  have c: "readFile w p = Inr content \<and> hasHash rows (sha256hex w content) \<longrightarrow>
      processSource w (Some rows) False (p, docs) st =
        Inr (st\<lparr>skipSources := skipSources st @ [p],
                 sentFilters := sentFilters st @ [hashFilter (sha256hex w content)]\<rparr>)"
    by (simp add: processSource_def bindE_def Let_def existsCheck_query)
  have d: "seed w overwrite db = Inr r \<and> (overwrite \<or> catalog db = None) \<longrightarrow>
      skipSources (processed r) = [] \<and> sentFilters (processed r) = []"
  proof
    assume h: "seed w overwrite db = Inr r \<and> (overwrite \<or> catalog db = None)"
    then obtain loaded' where
      "processDocuments w (map stripMetadata loaded') (catalog db) True = Inr (processed r)"
      using seed_processed [of w overwrite db r] by auto
    then obtain g where
      "processEntries w (catalog db) True (Object_entries g)
         \<lparr>skipSources = [], catalogRecords = [], sentFilters = []\<rparr> = Inr (processed r)"
      by (rule processDocuments_Inr)
    from processEntries_skipExistsCheck [OF this]
    show "skipSources (processed r) = [] \<and> sentFilters (processed r) = []" by simp
  qed
  have e: "seed w False db = Inr r \<and> catalog db = Some rows \<and> directoryLoader_load w = Inr loaded \<longrightarrow>
      set (skipSources (processed r)) = {p \<in> ld_source ` set loaded. cataloged w rows p}"
  proof
    assume h: "seed w False db = Inr r \<and> catalog db = Some rows \<and> directoryLoader_load w = Inr loaded"
    then have "processDocuments w (map stripMetadata loaded) (Some rows) False = Inr (processed r)"
      using seed_processed [of w False db r] by auto
    then obtain g where
      grp: "groupBySource (map stripMetadata loaded) [] = Inr g" and
      pe: "processEntries w (Some rows) False (Object_entries g)
         \<lparr>skipSources = [], catalogRecords = [], sentFilters = []\<rparr> = Inr (processed r)"
      by (rule processDocuments_Inr)
    from grp have keys: "fst ` set (Object_entries g) = ld_source ` set loaded"
      using groupBySource_keys [of loaded "[]" g] by (simp add: set_Object_entries)
    from processEntries_skipSources [OF pe]
    have "set (skipSources (processed r)) = {p \<in> fst ` set (Object_entries g). cataloged w rows p}"
      by auto
    with keys show "set (skipSources (processed r)) = {p \<in> ld_source ` set loaded. cataloged w rows p}"
      by simp
  qed
  from a b c d e show ?thesis by blast
qed

theorem catalog_check_decides_skip_witness:
  "existsCheck True (Some [example_catalog_record]) ''digest-of-%PDF-a'' [] = Inr (False, []) \<and>
   existsCheck False (Some [example_catalog_record]) ''digest-of-%PDF-a'' [] =
     Inr (True, [hashFilter ''digest-of-%PDF-a'']) \<and>
   existsCheck False (Some [example_catalog_record]) ''digest-of-%PDF'' [] =
     Inr (False, [hashFilter ''digest-of-%PDF'']) \<and>
   processSource copy_world (Some [example_catalog_record]) False (''/backup/a-copy.pdf'', [])
       \<lparr>skipSources = [], catalogRecords = [], sentFilters = []\<rparr> =
     Inr \<lparr>skipSources = [''/backup/a-copy.pdf''], catalogRecords = [],
          sentFilters = [hashFilter ''digest-of-%PDF-a'']\<rparr> \<and>
   seed example_world False example_empty_db = Inr example_first_run \<and>
   skipSources (processed example_first_run) = [] \<and>
   sentFilters (processed example_first_run) = [] \<and>
   seed example_world False (database example_first_run) = Inr example_second_run \<and>
   set (skipSources (processed example_second_run)) = {''/docs/a.pdf''}"
proof -
  note t = catalog_check_decides_skip
  have run1: "seed example_world False example_empty_db = Inr example_first_run"
    by code_simp
  have run2: "seed example_world False (database example_first_run) = Inr example_second_run"
    by code_simp
  have a: "existsCheck True (Some [example_catalog_record]) ''digest-of-%PDF-a'' [] = Inr (False, [])"
    using t [where overwrite = True and db = "database example_first_run"
               and h = "''digest-of-%PDF-a''" and sent = "[]"]
    by (simp add: example_first_run_def)
  have b: "existsCheck False (Some [example_catalog_record]) ''digest-of-%PDF-a'' [] =
     Inr (True, [hashFilter ''digest-of-%PDF-a''])"
    using t [where overwrite = False and db = "database example_first_run"
               and h = "''digest-of-%PDF-a''" and sent = "[]"
               and rows = "[example_catalog_record]"]
    by (simp add: example_first_run_def example_catalog_record_def getPropOpt_def ownProperty_def)
  have c: "existsCheck False (Some [example_catalog_record]) ''digest-of-%PDF'' [] =
     Inr (False, [hashFilter ''digest-of-%PDF''])"
    using t [where overwrite = False and db = "database example_first_run"
               and h = "''digest-of-%PDF''" and sent = "[]"
               and rows = "[example_catalog_record]"]
    by (simp add: example_first_run_def example_catalog_record_def getPropOpt_def ownProperty_def)
  have d: "processSource copy_world (Some [example_catalog_record]) False (''/backup/a-copy.pdf'', [])
       \<lparr>skipSources = [], catalogRecords = [], sentFilters = []\<rparr> =
     Inr \<lparr>skipSources = [''/backup/a-copy.pdf''], catalogRecords = [],
          sentFilters = [hashFilter ''digest-of-%PDF-a'']\<rparr>"
    using t [where w = copy_world and p = "''/backup/a-copy.pdf''" and content = "''%PDF-a''"
               and rows = "[example_catalog_record]" and docs = "[]"
               and st = "\<lparr>skipSources = [], catalogRecords = [], sentFilters = []\<rparr>"]
    by (simp add: copy_world_def example_world_def example_catalog_record_def hasHash_def
          getPropOpt_def ownProperty_def)
  have e: "skipSources (processed example_first_run) = [] \<and>
      sentFilters (processed example_first_run) = []"
    using t [where w = example_world and overwrite = False and db = example_empty_db
               and r = example_first_run] run1
    by (simp add: example_empty_db_def)
  have "set (skipSources (processed example_second_run)) =
      {p \<in> ld_source ` set [example_loaded]. cataloged example_world [example_catalog_record] p}"
    using t [where w = example_world and db = "database example_first_run"
               and r = example_second_run and rows = "[example_catalog_record]"
               and loaded = "[example_loaded]"] run2
    by (simp add: example_first_run_def example_world_def)
  also have "\<dots> = {''/docs/a.pdf''}"
    by (auto simp: example_loaded_def cataloged_def hashOfFile_def example_world_def hasHash_def
          example_catalog_record_def getPropOpt_def ownProperty_def)
  finally have f: "set (skipSources (processed example_second_run)) = {''/docs/a.pdf''}" .
  from a b c d e f run1 run2 show ?thesis by simp
qed

subsection \<open>A second run over an unchanged directory\<close>

text \<open>
  A run that stages catalog records writes a catalog table that holds these records alone,
  and a run that produces chunk documents writes a chunks table that holds these alone:
  the rows that were in the tables before are gone, also without \<open>--overwrite\<close>.
\<close>

lemma seed_rebuilds_written_tables:
  assumes "seed w overwrite db = Inr r"
  shows "(catalogRecords (processed r) \<noteq> [] \<longrightarrow>
            catalog (database r) = Some (catalogRecords (processed r))) \<and>
         (textDocs r @ imageDocuments r \<noteq> [] \<longrightarrow>
            chunks (database r) = Some (textDocs r @ imageDocuments r))"
  using assms
  by (auto simp: seed_def bindE_def Let_def LanceDB_fromDocuments_def
           split: sum.splits if_splits)

text \<open>
  Claim C2, at an input where the code breaks it. The catalog holds the row of \<open>a.pdf\<close>,
  left by a run over the directory when it held \<open>a.pdf\<close> alone. The directory now holds
  \<open>a.pdf\<close> and \<open>b.pdf\<close> and does not change any more. The first run over it, without
  \<open>--overwrite\<close>, skips \<open>a.pdf\<close>, stages the record of \<open>b.pdf\<close> and leaves a catalog that
  holds the row of \<open>b.pdf\<close> alone. The second run therefore finds no row for the unchanged
  \<open>a.pdf\<close>: it stages a new catalog record for it and splits and writes its text again,
  where the claim has no new catalog record and no chunk re-added on the second run.
\<close>

theorem second_run_stages_skipped_source_again:
  "seed one_pdf_world False example_empty_db = Inr initial_run \<and>
   catalog (database initial_run) = Some [example_catalog_record] \<and>
   seed two_pdf_world False (database initial_run) = Inr mixed_first_run \<and>
   skipSources (processed mixed_first_run) = [''/docs/a.pdf''] \<and>
   catalog (database mixed_first_run) = Some [example_catalog_record_b] \<and>
   seed two_pdf_world False (database mixed_first_run) = Inr mixed_second_run \<and>
   catalogRecords (processed mixed_second_run) = [example_catalog_record] \<and>
   textDocs mixed_second_run = [example_text_chunk]"
proof -
  have run0: "seed one_pdf_world False example_empty_db = Inr initial_run"
    by code_simp
  have run1: "seed two_pdf_world False (database initial_run) = Inr mixed_first_run"
    by code_simp
  have run2: "seed two_pdf_world False (database mixed_first_run) = Inr mixed_second_run"
    by code_simp
  from run0 run1 run2 show ?thesis
    by (simp add: initial_run_def mixed_first_run_def mixed_second_run_def)
qed

subsection \<open>The call of the splitter\<close>

text \<open>
  \<open>seed\<close> calls the text splitter with chunk size 500 and overlap 10, on the loaded
  documents whose source was not skipped, in the order of loading.
\<close>

lemma seed_splitter_call:
  assumes "seed w overwrite db = Inr r"
  shows "textDocs r = splitDocuments w 500 10 (filteredRawDocs r) \<and>
         (\<exists>loaded. directoryLoader_load w = Inr loaded \<and>
            filteredRawDocs r =
              filter (\<lambda>doc. \<not> Array_includes (skipSources (processed r))
                                (getPropOpt (metadata doc) ''source''))
                (map stripMetadata loaded))"
  using assms
  by (auto simp: seed_def bindE_def Let_def split: sum.splits if_splits)

end
